theory Spec2Isabelle
  imports
    Complex_Main
    "HOL-Library.AList"
    "HOL-Library.Char_ord"
    "HOL-Library.List_Lexorder"
    "HOL-Library.Multiset"
    "HOL-Library.Sublist"
begin

section \<open>Request resilience layer of mcp-anchor: cache, timeout executor, orchestrator\<close>

text \<open>
  The development embeds \<^verbatim>\<open>src/performance/types.ts\<close>, \<^verbatim>\<open>src/performance/cache.ts\<close>,
  \<^verbatim>\<open>src/performance/timeout.ts\<close> and the performance manager (\<^verbatim>\<open>PerformanceManager\<close>).

  Conventions of the embedding.
  \<^item> A JavaScript string is a \<open>string\<close> (a list of 8-bit characters); only the ASCII letters
    are changed by \<open>toLowerCase\<close>.
  \<^item> A JavaScript number that holds a time stamp, a duration, a seed or a capacity is an
    \<open>int\<close>; a counter that only ever goes up from 0 is a \<open>nat\<close>; the two derived rates
    are \<open>rat\<close>.
  \<^item> A payload (TypeScript \<open>any\<close> or \<open>T\<close>) is an \<open>'a option\<close>: \<open>None\<close> is the JavaScript
    value \<open>null\<close>, \<open>Some v\<close> any other value. The code compares payloads with \<open>null\<close>, so
    the distinction is part of the model.
  \<^item> Every reading of \<open>Date.now()\<close> is an explicit argument.
  \<^item> Every mutable object is a record that the operation returns updated.
  \<^item> Logging (\<open>console.warn\<close>, \<open>console.error\<close>) has no effect on any value and is left out.
\<close>

subsection \<open>types.ts\<close>

record CacheKey =
  route :: string
  params :: string
  scenario :: string
  seed :: int

text \<open>\<open>CacheEntry\<close> repeats the four fields of \<open>CacheKey\<close> and adds five of its own.\<close>

record 'a CacheEntry = CacheKey +
  data :: "'a option"
  timestamp :: int
  ttl :: int
  hitCount :: nat
  lastAccess :: int

record PerformanceMetrics =
  cacheHits :: nat
  cacheMisses :: nat
  timeoutHits :: nat
  passthroughCount :: nat
  averageResponseTime :: int
  totalRequests :: nat
  cacheHitRate :: rat
  timeoutRate :: rat

record TimeoutBudget =
  fixtureTimeoutMs :: int
  enablePassthrough :: bool
  logTimeouts :: bool

record CacheConfig =
  enabled :: bool
  maxEntries :: int
  defaultTtlMs :: int
  cleanupIntervalMs :: int

record MetricsConfig =
  enableCollection :: bool
  reportingIntervalMs :: int

record PerformanceConfig =
  cfg_cache :: CacheConfig
  cfg_timeout :: TimeoutBudget
  cfg_metrics :: MetricsConfig

text \<open>\<open>ScenarioConfig\<close> of \<^verbatim>\<open>src/scenario/types.ts\<close>, the value of \<open>getCurrentScenario()\<close>.\<close>

record ScenarioConfig =
  sc_name :: string
  sc_seed :: int

subsection \<open>JavaScript values used by the code\<close>

text \<open>A thrown value: an \<open>Error\<close> object with its message, or any other value.\<close>

datatype thrown = Error string | NonError string

text \<open>
  The state of a promise at the moment the code looks at it: fulfilled, rejected, or not
  settled. A function that throws synchronously inside \<open>try\<close> is \<open>Rejected\<close> as well.
\<close>

datatype 'a promise = Fulfilled 'a | Rejected thrown | Pending

text \<open>Calls that the claims speak of, in the order the code makes them.\<close>

datatype event = CacheGet | CacheSet | FetchWithTimeout | FetchFnCalled | FallbackFnCalled

text \<open>\<open>String.prototype.includes\<close>.\<close>

definition includes_str :: "string \<Rightarrow> string \<Rightarrow> bool" where
  "includes_str s sub = sublist sub s"

text \<open>Number to string, for a number that holds an integer.\<close>

definition digit_char :: "nat \<Rightarrow> char" where
  "digit_char n = ''0123456789'' ! n"

fun string_of_nat :: "nat \<Rightarrow> string" where
  "string_of_nat n =
     (if n < 10 then [digit_char n] else string_of_nat (n div 10) @ [digit_char (n mod 10)])"

declare string_of_nat.simps [simp del]

definition string_of_int :: "int \<Rightarrow> string" where
  "string_of_int i = (if i < 0 then CHR ''-'' # string_of_nat (nat (- i)) else string_of_nat (nat i))"

text \<open>\<open>toLowerCase\<close> on the ASCII letters.\<close>

definition lower_char :: "char \<Rightarrow> char" where
  "lower_char c =
     (case map_of (zip ''ABCDEFGHIJKLMNOPQRSTUVWXYZ'' ''abcdefghijklmnopqrstuvwxyz'') c of
        None \<Rightarrow> c | Some l \<Rightarrow> l)"

definition toLowerCase :: "string \<Rightarrow> string" where
  "toLowerCase s = map lower_char s"

text \<open>\<open>s.replace(/\/+/g, '/')\<close>: every run of slashes becomes one slash.\<close>

fun collapse_slashes :: "string \<Rightarrow> string" where
  "collapse_slashes [] = []"
| "collapse_slashes [c] = [c]"
| "collapse_slashes (c # d # cs) =
     (if c = CHR ''/'' \<and> d = CHR ''/'' then collapse_slashes (d # cs)
      else c # collapse_slashes (d # cs))"

subsection \<open>The platform class URLSearchParams\<close>

text \<open>
  \<open>URLSearchParams\<close> belongs to the JavaScript platform, not to the repository. Its object
  is the list of name-value pairs it holds, in order. The constructor from a string and
  \<open>toString\<close> are parameters of the embedding (\<open>None\<close> from the constructor is a throw);
  \<open>keys\<close>, \<open>get\<close> and \<open>set\<close> work on the list as the URL standard describes.
\<close>

type_synonym URLSearchParams = "(string \<times> string) list"

record platform =
  usp_new :: "string \<Rightarrow> URLSearchParams option"
  usp_toString :: "URLSearchParams \<Rightarrow> string"

definition usp_keys :: "URLSearchParams \<Rightarrow> string list" where
  "usp_keys l = map fst l"

text \<open>\<open>get\<close>: the value of the first pair with that name, or \<open>null\<close>.\<close>

definition usp_get :: "URLSearchParams \<Rightarrow> string \<Rightarrow> string option" where
  "usp_get l k = map_of l k"

text \<open>
  \<open>set\<close>: the first pair with that name takes the value and the other pairs with that name
  are removed; without such a pair, a new pair is appended.
\<close>

fun usp_set :: "URLSearchParams \<Rightarrow> string \<Rightarrow> string \<Rightarrow> URLSearchParams" where
  "usp_set [] k v = [(k, v)]"
| "usp_set ((n, w) # ps) k v =
     (if n = k then (k, v) # filter (\<lambda>p. fst p \<noteq> k) ps else (n, w) # usp_set ps k v)"

text \<open>
  The platform as the URL standard defines it, on byte strings: the constructor drops one
  leading question mark, splits at \<open>&\<close>, skips empty pieces, splits each piece at its first
  \<open>=\<close>, turns \<open>+\<close> into a space and decodes percent escapes; \<open>toString\<close> writes \<open>name=value\<close>
  joined by \<open>&\<close> with the form-urlencoded escapes. The constructor never throws on a string.
\<close>

fun split_on :: "char \<Rightarrow> string \<Rightarrow> string list" where
  "split_on c [] = [[]]"
| "split_on c (x # xs) =
     (if x = c then [] # split_on c xs
      else (case split_on c xs of [] \<Rightarrow> [[x]] | y # ys \<Rightarrow> (x # y) # ys))"

definition hex_val :: "char \<Rightarrow> nat option" where
  "hex_val c = map_of (zip ''0123456789abcdefABCDEF''
     [0, 1, 2, 3, 4, 5, 6, 7, 8, 9, 10, 11, 12, 13, 14, 15, 10, 11, 12, 13, 14, 15]) c"

fun percent_decode :: "string \<Rightarrow> string" where
  "percent_decode (c # a # b # cs) =
     (if c = CHR ''%'' then
        (case (hex_val a, hex_val b) of
           (Some h, Some l) \<Rightarrow> char_of (16 * h + l) # percent_decode cs
         | _ \<Rightarrow> c # percent_decode (a # b # cs))
      else c # percent_decode (a # b # cs))"
| "percent_decode cs = cs"

definition form_decode :: "string \<Rightarrow> string" where
  "form_decode s = percent_decode (map (\<lambda>c. if c = CHR ''+'' then CHR '' '' else c) s)"

definition parse_pair :: "string \<Rightarrow> string \<times> string" where
  "parse_pair s =
     (form_decode (takeWhile (\<lambda>c. c \<noteq> CHR ''='') s),
      form_decode (drop 1 (dropWhile (\<lambda>c. c \<noteq> CHR ''='') s)))"

definition whatwg_new :: "string \<Rightarrow> URLSearchParams option" where
  "whatwg_new init =
     (let s = (case init of c # cs \<Rightarrow> if c = CHR ''?'' then cs else init | [] \<Rightarrow> init)
      in Some (map parse_pair (filter (\<lambda>piece. piece \<noteq> []) (split_on CHR ''&'' s))))"

definition hex_digit :: "nat \<Rightarrow> char" where
  "hex_digit n = ''0123456789ABCDEF'' ! n"

definition form_encode_char :: "char \<Rightarrow> string" where
  "form_encode_char c =
     (if c = CHR '' '' then ''+''
      else if c \<in> set ''*-._0123456789ABCDEFGHIJKLMNOPQRSTUVWXYZabcdefghijklmnopqrstuvwxyz''
      then [c]
      else [CHR ''%'', hex_digit (of_char c div 16), hex_digit (of_char c mod 16)])"

definition form_encode :: "string \<Rightarrow> string" where
  "form_encode s = concat (map form_encode_char s)"

fun join_amp :: "string list \<Rightarrow> string" where
  "join_amp [] = []"
| "join_amp [s] = s"
| "join_amp (s # t # ss) = s @ ''&'' @ join_amp (t # ss)"

definition whatwg_toString :: "URLSearchParams \<Rightarrow> string" where
  "whatwg_toString l = join_amp (map (\<lambda>(n, v). form_encode n @ ''='' @ form_encode v) l)"

definition whatwg :: platform where
  "whatwg = \<lparr>usp_new = whatwg_new, usp_toString = whatwg_toString\<rparr>"

subsection \<open>cache.ts: class ResponseCache\<close>

text \<open>
  The private \<open>Map\<close> is the list of its key-entry pairs in insertion order, the order in
  which a JavaScript \<open>Map\<close> iterates. \<open>Map.get\<close> is \<open>map_of\<close>, \<open>Map.delete\<close> is
  \<open>AList.delete\<close>, and \<open>Map.set\<close> is \<open>AList.update\<close>: it replaces the value where the key
  is and appends a pair for a new key.
\<close>

record 'a ResponseCache =
  rc_cache :: "(string \<times> 'a CacheEntry) list"
  rc_maxEntries :: int
  rc_defaultTtlMs :: int
  rc_metrics :: PerformanceMetrics

definition zero_metrics :: PerformanceMetrics where
  "zero_metrics = \<lparr>cacheHits = 0, cacheMisses = 0, timeoutHits = 0, passthroughCount = 0,
     averageResponseTime = 0, totalRequests = 0, cacheHitRate = 0, timeoutRate = 0\<rparr>"

text \<open>
  The constructor; an absent option is \<open>None\<close>, and \<open>x || d\<close> takes \<open>d\<close> for an absent or
  zero \<open>x\<close>. The cleanup timer it may start is not part of the state.
\<close>

definition or_default :: "int option \<Rightarrow> int \<Rightarrow> int" where
  "or_default x d = (case x of None \<Rightarrow> d | Some v \<Rightarrow> if v = 0 then d else v)"

definition new_ResponseCache :: "int option \<Rightarrow> int option \<Rightarrow> 'a ResponseCache" where
  "new_ResponseCache optMaxEntries optDefaultTtlMs =
     \<lparr>rc_cache = [], rc_maxEntries = or_default optMaxEntries 1000,
      rc_defaultTtlMs = or_default optDefaultTtlMs (5 * 60 * 1000), rc_metrics = zero_metrics\<rparr>"

definition normalizeRoute :: "string \<Rightarrow> string" where
  "normalizeRoute r = collapse_slashes (toLowerCase (takeWhile (\<lambda>c. c \<noteq> CHR ''?'') r))"

definition normalizeParams :: "platform \<Rightarrow> string \<Rightarrow> string" where
  "normalizeParams pf ps =
     (if ps = [] then []
      else
        (case usp_new pf ps of
           None \<Rightarrow> ps
         | Some urlParams \<Rightarrow>
             usp_toString pf
               (foldl (\<lambda>sortedParams key.
                         usp_set sortedParams key
                           (case usp_get urlParams key of None \<Rightarrow> [] | Some v \<Rightarrow> v))
                  [] (sort (usp_keys urlParams)))))"

definition generateKey :: "platform \<Rightarrow> CacheKey \<Rightarrow> string" where
  "generateKey pf cacheKey =
     normalizeRoute (route cacheKey) @ '':'' @
     normalizeParams pf (params cacheKey) @ '':'' @
     (if scenario cacheKey = [] then ''baseline'' else scenario cacheKey) @ '':'' @
     string_of_int (if seed cacheKey = 0 then 42 else seed cacheKey)"

definition count_miss :: "'a ResponseCache \<Rightarrow> 'a ResponseCache" where
  "count_miss c = c\<lparr>rc_metrics := (rc_metrics c)\<lparr>cacheMisses := cacheMisses (rc_metrics c) + 1\<rparr>\<rparr>"

definition count_hit :: "'a ResponseCache \<Rightarrow> 'a ResponseCache" where
  "count_hit c = c\<lparr>rc_metrics := (rc_metrics c)\<lparr>cacheHits := cacheHits (rc_metrics c) + 1\<rparr>\<rparr>"

text \<open>\<open>get\<close>, with the reading of \<open>Date.now()\<close> in line 94 as \<open>now\<close>.\<close>

definition get :: "platform \<Rightarrow> 'a ResponseCache \<Rightarrow> int \<Rightarrow> CacheKey \<Rightarrow> 'a ResponseCache \<times> 'a option" where
  "get pf c now cacheKey =
     (let key = generateKey pf cacheKey in
      case map_of (rc_cache c) key of
        None \<Rightarrow> (count_miss c, None)
      | Some entry \<Rightarrow>
          if now - timestamp entry > ttl entry then
            (count_miss (c\<lparr>rc_cache := AList.delete key (rc_cache c)\<rparr>), None)
          else
            (let entry' = entry\<lparr>hitCount := hitCount entry + 1, lastAccess := now\<rparr> in
             (count_hit (c\<lparr>rc_cache := AList.update key entry' (AList.delete key (rc_cache c))\<rparr>),
              data entry')))"

text \<open>
  \<open>evictLRU\<close>, with its own reading of \<open>Date.now()\<close> (line 147) as \<open>now\<close>. The loop keeps
  the pair \<open>(oldestKey, oldestTime)\<close>; a key that is the empty string counts as no key in
  the test \<open>if (oldestKey)\<close>.
\<close>

definition evict_step :: "string option \<times> int \<Rightarrow> string \<times> 'a CacheEntry \<Rightarrow> string option \<times> int" where
  "evict_step acc kv =
     (if lastAccess (snd kv) < snd acc then (Some (fst kv), lastAccess (snd kv)) else acc)"

definition evictLRU :: "'a ResponseCache \<Rightarrow> int \<Rightarrow> 'a ResponseCache" where
  "evictLRU c now =
     (case fst (foldl evict_step (None, now) (rc_cache c)) of
        None \<Rightarrow> c
      | Some oldestKey \<Rightarrow>
          if oldestKey \<noteq> [] then c\<lparr>rc_cache := AList.delete oldestKey (rc_cache c)\<rparr> else c)"

text \<open>
  \<open>set\<close>, with the readings of \<open>Date.now()\<close> in line 120 (\<open>now\<close>) and inside \<open>evictLRU\<close>
  (\<open>nowEvict\<close>); \<open>ttlMs\<close> is \<open>None\<close> when the argument is left out.
\<close>

definition set_rc :: "platform \<Rightarrow> 'a ResponseCache \<Rightarrow> int \<Rightarrow> int \<Rightarrow> CacheKey \<Rightarrow> 'a option \<Rightarrow> int option \<Rightarrow> 'a ResponseCache" where
  "set_rc pf c now nowEvict cacheKey d ttlMs =
     (let key = generateKey pf cacheKey;
          entry = \<lparr>route = route cacheKey, params = params cacheKey,
                   scenario = scenario cacheKey, seed = seed cacheKey,
                   data = d, timestamp = now, ttl = or_default ttlMs (rc_defaultTtlMs c),
                   hitCount = 0, lastAccess = now\<rparr>;
          c' = (if int (length (rc_cache c)) \<ge> rc_maxEntries c then evictLRU c nowEvict else c)
      in c'\<lparr>rc_cache := AList.update key entry (rc_cache c')\<rparr>)"

text \<open>\<open>has\<close>, with the reading of \<open>Date.now()\<close> in line 253 as \<open>now\<close>.\<close>

definition has :: "platform \<Rightarrow> 'a ResponseCache \<Rightarrow> int \<Rightarrow> CacheKey \<Rightarrow> 'a ResponseCache \<times> bool" where
  "has pf c now cacheKey =
     (let key = generateKey pf cacheKey in
      case map_of (rc_cache c) key of
        None \<Rightarrow> (c, False)
      | Some entry \<Rightarrow>
          if now - timestamp entry > ttl entry then
            (c\<lparr>rc_cache := AList.delete key (rc_cache c)\<rparr>, False)
          else (c, True))"

text \<open>\<open>getStats\<close>: the metrics with three of them recomputed, the size and the capacity.\<close>

record CacheStats = PerformanceMetrics +
  st_cacheSize :: nat
  st_maxEntries :: int

definition getStats :: "'a ResponseCache \<Rightarrow> CacheStats" where
  "getStats c =
     (let m = rc_metrics c; total = cacheHits m + cacheMisses m in
      \<lparr>cacheHits = cacheHits m, cacheMisses = cacheMisses m, timeoutHits = timeoutHits m,
       passthroughCount = passthroughCount m, averageResponseTime = averageResponseTime m,
       totalRequests = total,
       cacheHitRate = (if total > 0 then of_nat (cacheHits m) / of_nat total else 0),
       timeoutRate = (if total > 0 then of_nat (timeoutHits m) / of_nat total else 0),
       st_cacheSize = length (rc_cache c), st_maxEntries = rc_maxEntries c\<rparr>)"

text \<open>
  \<open>updateMetrics\<close>: \<open>Object.assign\<close> of a partial metrics object, given as the function that
  assigns the fields the object has.
\<close>

definition updateMetrics :: "'a ResponseCache \<Rightarrow> (PerformanceMetrics \<Rightarrow> PerformanceMetrics) \<Rightarrow> 'a ResponseCache" where
  "updateMetrics c upd = c\<lparr>rc_metrics := upd (rc_metrics c)\<rparr>"

subsection \<open>timeout.ts: class TimeoutManager\<close>

datatype provenance = SrcCache | SrcFixture | SrcPassthrough

record 'a TimeoutOutcome =
  result :: "'a option"
  timedOut :: bool
  source :: provenance

record TimeoutManager =
  tm_config :: TimeoutBudget
  tm_timeoutHits :: nat
  tm_totalRequests :: nat

text \<open>The error with which the timer promise rejects (line 37).\<close>

definition timeout_error :: "int \<Rightarrow> thrown" where
  "timeout_error timeoutMs = Error (''Fixture timeout after '' @ string_of_int timeoutMs @ ''ms'')"

text \<open>Line 57: \<open>error instanceof Error && error.message.includes('timeout')\<close>.\<close>

definition isTimeout :: "thrown \<Rightarrow> bool" where
  "isTimeout error =
     (case error of Error message \<Rightarrow> includes_str message ''timeout'' | NonError v \<Rightarrow> False)"

text \<open>
  The \<open>catch\<close> block of \<open>fetchWithTimeout\<close> (lines 55 to 81). \<open>fallbackFn\<close> is \<open>None\<close> when
  the argument is \<open>undefined\<close>, and otherwise the promise its call returns.
\<close>

definition fetchWithTimeout_catch ::
  "TimeoutManager \<Rightarrow> thrown \<Rightarrow> 'a option promise option \<Rightarrow>
   TimeoutManager \<times> event list \<times> 'a TimeoutOutcome promise" where
  "fetchWithTimeout_catch tm error fallbackFn =
     (if isTimeout error then
        (let tm' = tm\<lparr>tm_timeoutHits := tm_timeoutHits tm + 1\<rparr> in
         if enablePassthrough (tm_config tm') \<and> fallbackFn \<noteq> None then
           (case the fallbackFn of
              Fulfilled fallbackResult \<Rightarrow>
                (tm', [FallbackFnCalled],
                 Fulfilled \<lparr>result = fallbackResult, timedOut = True, source = SrcPassthrough\<rparr>)
            | Rejected fallbackError \<Rightarrow> (tm', [FallbackFnCalled], Rejected fallbackError)
            | Pending \<Rightarrow> (tm', [FallbackFnCalled], Pending))
         else (tm', [], Rejected error))
      else (tm, [], Rejected error))"

text \<open>
  \<open>fetchWithTimeout\<close>. The argument \<open>fetchFn\<close> is the state of the promise of \<open>fetchFn()\<close>
  when \<open>Promise.race\<close> settles: \<open>Fulfilled\<close> or \<open>Rejected\<close> when it settled before the
  timer, \<open>Pending\<close> when the timer fired first, and then the race rejects with the
  timer's error. The result is the state in which the returned promise ends: \<open>Pending\<close>
  when the fallback never settles.
\<close>

definition fetchWithTimeout ::
  "TimeoutManager \<Rightarrow> 'a option promise \<Rightarrow> 'a option promise option \<Rightarrow>
   TimeoutManager \<times> event list \<times> 'a TimeoutOutcome promise" where
  "fetchWithTimeout tm fetchFn fallbackFn =
     (let tm1 = tm\<lparr>tm_totalRequests := tm_totalRequests tm + 1\<rparr>;
          timeoutMs = fixtureTimeoutMs (tm_config tm1)
      in case fetchFn of
           Fulfilled r \<Rightarrow>
             (tm1, [FetchFnCalled], Fulfilled \<lparr>result = r, timedOut = False, source = SrcFixture\<rparr>)
         | Rejected error \<Rightarrow>
             (case fetchWithTimeout_catch tm1 error fallbackFn of
                (tm2, evs, p) \<Rightarrow> (tm2, FetchFnCalled # evs, p))
         | Pending \<Rightarrow>
             (case fetchWithTimeout_catch tm1 (timeout_error timeoutMs) fallbackFn of
                (tm2, evs, p) \<Rightarrow> (tm2, FetchFnCalled # evs, p)))"

text \<open>
  \<open>fetchMultipleWithTimeout\<close>. \<open>fallback_at\<close> is \<open>fallbacks?.[index]\<close>; \<open>fetchEach\<close> is the
  \<open>requests.map\<close> of lines 93 to 102, which starts one \<open>fetchWithTimeout\<close> for each request;
  \<open>allSettled\<close> is \<open>Promise.allSettled\<close>, which settles once every promise has settled and
  never rejects. The calls the pairs make are not recorded for the batch.
\<close>

definition fallback_at :: "'a option promise list option \<Rightarrow> nat \<Rightarrow> 'a option promise option" where
  "fallback_at fallbacks index =
     (case fallbacks of
        None \<Rightarrow> None
      | Some fs \<Rightarrow> if index < length fs then Some (fs ! index) else None)"

fun fetchEach ::
  "TimeoutManager \<Rightarrow> 'a option promise list \<Rightarrow> 'a option promise list option \<Rightarrow> nat \<Rightarrow>
   TimeoutManager \<times> 'a TimeoutOutcome promise list" where
  "fetchEach tm [] fallbacks index = (tm, [])"
| "fetchEach tm (fetchFn # rest) fallbacks index =
     (case fetchWithTimeout tm fetchFn (fallback_at fallbacks index) of
        (tm1, evs, p) \<Rightarrow>
          (case fetchEach tm1 rest fallbacks (Suc index) of
             (tm2, ps) \<Rightarrow> (tm2, p # ps)))"

definition allSettled :: "'b promise list \<Rightarrow> 'b promise list promise" where
  "allSettled ps = (if Pending \<in> set ps then Pending else Fulfilled ps)"

definition failure_marker :: "'a TimeoutOutcome" where
  "failure_marker = \<lparr>result = None, timedOut = True, source = SrcPassthrough\<rparr>"

definition fetchMultipleWithTimeout ::
  "TimeoutManager \<Rightarrow> 'a option promise list \<Rightarrow> 'a option promise list option \<Rightarrow>
   TimeoutManager \<times> 'a TimeoutOutcome list promise" where
  "fetchMultipleWithTimeout tm requests fallbacks =
     (case fetchEach tm requests fallbacks 0 of
        (tm', ps) \<Rightarrow>
          (tm',
           case allSettled ps of
             Fulfilled results \<Rightarrow>
               Fulfilled (map (\<lambda>r. case r of Fulfilled v \<Rightarrow> v | Rejected e \<Rightarrow> failure_marker
                                      | Pending \<Rightarrow> failure_marker) results)
           | Rejected e \<Rightarrow> Rejected e
           | Pending \<Rightarrow> Pending))"

record TimeoutStats =
  ts_timeoutHits :: nat
  ts_totalRequests :: nat
  ts_timeoutRate :: rat
  ts_timeoutBudgetMs :: int
  ts_passthroughEnabled :: bool

definition getStats_tm :: "TimeoutManager \<Rightarrow> TimeoutStats" where
  "getStats_tm tm =
     \<lparr>ts_timeoutHits = tm_timeoutHits tm, ts_totalRequests = tm_totalRequests tm,
      ts_timeoutRate = (if tm_totalRequests tm > 0
                        then of_nat (tm_timeoutHits tm) / of_nat (tm_totalRequests tm) else 0),
      ts_timeoutBudgetMs = fixtureTimeoutMs (tm_config tm),
      ts_passthroughEnabled = enablePassthrough (tm_config tm)\<rparr>"

subsection \<open>The performance manager: class PerformanceManager\<close>

record 'a PerformanceManager =
  pm_cache :: "'a ResponseCache"
  pm_timeoutManager :: TimeoutManager
  pm_config :: PerformanceConfig
  pm_startTime :: int

text \<open>
  The constructor, from the configuration it has merged (lines 18 to 35) and its reading of
  \<open>Date.now()\<close>.
\<close>

definition new_PerformanceManager :: "PerformanceConfig \<Rightarrow> int \<Rightarrow> 'a PerformanceManager" where
  "new_PerformanceManager config now =
     \<lparr>pm_cache = new_ResponseCache (Some (maxEntries (cfg_cache config)))
                   (Some (defaultTtlMs (cfg_cache config))),
      pm_timeoutManager = \<lparr>tm_config = cfg_timeout config, tm_timeoutHits = 0, tm_totalRequests = 0\<rparr>,
      pm_config = config, pm_startTime = now\<rparr>"

record Options =
  opt_url :: string
  opt_method :: "string option"
  opt_params :: "string option"
  opt_enableCache :: "bool option"
  opt_ttlMs :: "int option"

text \<open>
  The readings of \<open>Date.now()\<close> during one call of \<open>executeFixtureRequest\<close>: line 66, inside
  \<open>cache.get\<close>, line 82, line 101 or 125, inside \<open>cache.set\<close>, inside \<open>evictLRU\<close>.
\<close>

record Readings =
  now_start :: int
  now_get :: int
  now_hit :: int
  now_done :: int
  now_set :: int
  now_evict :: int

record 'a RequestOutcome = "'a TimeoutOutcome" +
  fromCache :: bool
  latencyMs :: int

text \<open>Lines 71 to 76: the key, from the options and the current scenario.\<close>

definition computeCacheKey :: "ScenarioConfig \<Rightarrow> Options \<Rightarrow> CacheKey" where
  "computeCacheKey scen options =
     \<lparr>route = opt_url options,
      params = (case opt_params options of None \<Rightarrow> [] | Some p \<Rightarrow> p),
      scenario = sc_name scen,
      seed = (if sc_seed scen = 0 then 42 else sc_seed scen)\<rparr>"

text \<open>The condition of lines 79 and 107: caching is on globally and not off for the call.\<close>

definition cachingOn :: "'a PerformanceManager \<Rightarrow> Options \<Rightarrow> bool" where
  "cachingOn pm options \<longleftrightarrow> enabled (cfg_cache (pm_config pm)) \<and> opt_enableCache options \<noteq> Some False"

text \<open>Lines 93 to 133: the call of the timeout executor and what follows it.\<close>

definition executeWithBudget ::
  "platform \<Rightarrow> Readings \<Rightarrow> 'a PerformanceManager \<Rightarrow> CacheKey \<Rightarrow> 'a option promise \<Rightarrow>
   'a option promise \<Rightarrow> Options \<Rightarrow> 'a PerformanceManager \<times> event list \<times> 'a RequestOutcome promise" where
  "executeWithBudget pf t pm cacheKey fixtureRequestFn passthroughFn options =
     (case fetchWithTimeout (pm_timeoutManager pm) fixtureRequestFn (Some passthroughFn) of
        (tm', evs, p) \<Rightarrow>
          (let pm1 = pm\<lparr>pm_timeoutManager := tm'\<rparr> in
           case p of
             Fulfilled out \<Rightarrow>
               (let doCache = (enabled (cfg_cache (pm_config pm1)) \<and> source out = SrcFixture \<and>
                               \<not> timedOut out \<and> opt_enableCache options \<noteq> Some False);
                    cache1 = (if doCache
                              then set_rc pf (pm_cache pm1) (now_set t) (now_evict t) cacheKey
                                     (result out) (opt_ttlMs options)
                              else pm_cache pm1);
                    cache2 = (if timedOut out
                              then updateMetrics cache1
                                     (\<lambda>m. m\<lparr>timeoutHits := timeoutHits (getStats cache1) + 1\<rparr>)
                              else cache1)
                in (pm1\<lparr>pm_cache := cache2\<rparr>,
                    FetchWithTimeout # evs @ (if doCache then [CacheSet] else []),
                    Fulfilled \<lparr>result = result out, timedOut = timedOut out,
                      source = (if source out = SrcFixture then SrcFixture else SrcPassthrough),
                      fromCache = False, latencyMs = now_done t - now_start t\<rparr>))
           | Rejected error \<Rightarrow> (pm1, FetchWithTimeout # evs, Rejected error)
           | Pending \<Rightarrow> (pm1, FetchWithTimeout # evs, Pending)))"

text \<open>
  \<open>executeFixtureRequest\<close>. \<open>scen\<close> is the value of \<open>scenarioEngine.getCurrentScenario()\<close>;
  the two operations are given as in \<open>fetchWithTimeout\<close>.
\<close>

definition executeFixtureRequest ::
  "platform \<Rightarrow> ScenarioConfig \<Rightarrow> Readings \<Rightarrow> 'a PerformanceManager \<Rightarrow> 'a option promise \<Rightarrow>
   'a option promise \<Rightarrow> Options \<Rightarrow> 'a PerformanceManager \<times> event list \<times> 'a RequestOutcome promise" where
  "executeFixtureRequest pf scen t pm fixtureRequestFn passthroughFn options =
     (let cacheKey = computeCacheKey scen options in
      if cachingOn pm options then
        (case get pf (pm_cache pm) (now_get t) cacheKey of
           (cache1, cachedResult) \<Rightarrow>
             if cachedResult \<noteq> None then
               (pm\<lparr>pm_cache := cache1\<rparr>, [CacheGet],
                Fulfilled \<lparr>result = cachedResult, timedOut = False, source = SrcCache,
                  fromCache = True, latencyMs = now_hit t - now_start t\<rparr>)
             else
               (case executeWithBudget pf t (pm\<lparr>pm_cache := cache1\<rparr>) cacheKey
                       fixtureRequestFn passthroughFn options of
                  (pm', evs, p) \<Rightarrow> (pm', CacheGet # evs, p)))
      else executeWithBudget pf t pm cacheKey fixtureRequestFn passthroughFn options)"

text \<open>\<open>getMetrics\<close>, with its reading of \<open>Date.now()\<close>.\<close>

record CacheReport =
  cr_size :: nat
  cr_maxEntries :: int
  cr_hitRate :: rat

record TimeoutReport =
  tr_budgetMs :: int
  tr_hitRate :: rat
  tr_passthroughEnabled :: bool

record MetricsReport = PerformanceMetrics +
  mr_cache :: CacheReport
  mr_timeout :: TimeoutReport
  mr_uptime :: int

definition getMetrics :: "'a PerformanceManager \<Rightarrow> int \<Rightarrow> MetricsReport" where
  "getMetrics pm now =
     (let cacheStats = getStats (pm_cache pm);
          timeoutStats = getStats_tm (pm_timeoutManager pm);
          uptime = now - pm_startTime pm
      in \<lparr>cacheHits = cacheHits cacheStats, cacheMisses = cacheMisses cacheStats,
          timeoutHits = ts_timeoutHits timeoutStats,
          passthroughCount = passthroughCount cacheStats,
          averageResponseTime = averageResponseTime cacheStats,
          totalRequests = ts_totalRequests timeoutStats,
          cacheHitRate = cacheHitRate cacheStats,
          timeoutRate = ts_timeoutRate timeoutStats,
          mr_cache = \<lparr>cr_size = st_cacheSize cacheStats, cr_maxEntries = st_maxEntries cacheStats,
                       cr_hitRate = cacheHitRate cacheStats\<rparr>,
          mr_timeout = \<lparr>tr_budgetMs = ts_timeoutBudgetMs timeoutStats,
                         tr_hitRate = ts_timeoutRate timeoutStats,
                         tr_passthroughEnabled = ts_passthroughEnabled timeoutStats\<rparr>,
          mr_uptime = uptime\<rparr>)"

text \<open>
  The cache as \<open>executeFixtureRequest\<close> leaves it after its initial lookup (lines 79 to 91):
  the cache after \<open>get\<close> when caching is on, the cache as it was otherwise.
\<close>

definition cacheAfterLookup ::
  "platform \<Rightarrow> ScenarioConfig \<Rightarrow> Readings \<Rightarrow> 'a PerformanceManager \<Rightarrow> Options \<Rightarrow> 'a ResponseCache" where
  "cacheAfterLookup pf scen t pm options =
     (if cachingOn pm options
      then fst (get pf (pm_cache pm) (now_get t) (computeCacheKey scen options))
      else pm_cache pm)"

subsection \<open>Concrete inputs\<close>

text \<open>The key and the cache of step 4 of \<^verbatim>\<open>src/__tests__/performance-test.ts\<close>, set at time 100.\<close>

definition key0 :: CacheKey where
  "key0 = \<lparr>route = ''/api/users'', params = ''limit=5'', scenario = ''baseline'', seed = 42\<rparr>"

definition entry0 :: "nat CacheEntry" where
  "entry0 = \<lparr>route = ''/api/users'', params = ''limit=5'', scenario = ''baseline'', seed = 42,
     data = Some 7, timestamp = 100, ttl = 1000, hitCount = 0, lastAccess = 100\<rparr>"

definition cache0 :: "nat ResponseCache" where
  "cache0 = set_rc whatwg (new_ResponseCache (Some 10) (Some 1000)) 100 100 key0 (Some 7) None"

text \<open>A cache of capacity 2 that holds two entries, both set at time 100.\<close>

definition keyA :: CacheKey where
  "keyA = \<lparr>route = ''/a'', params = [], scenario = ''baseline'', seed = 42\<rparr>"

definition keyB :: CacheKey where
  "keyB = \<lparr>route = ''/b'', params = [], scenario = ''baseline'', seed = 42\<rparr>"

definition keyC :: CacheKey where
  "keyC = \<lparr>route = ''/c'', params = [], scenario = ''baseline'', seed = 42\<rparr>"

definition cacheAB :: "nat ResponseCache" where
  "cacheAB = set_rc whatwg
     (set_rc whatwg (new_ResponseCache (Some 2) None) 100 100 keyA (Some 1) None)
     100 100 keyB (Some 2) None"

text \<open>A manager with the default configuration, and the request of step 5 of the test.\<close>

definition config0 :: PerformanceConfig where
  "config0 =
     \<lparr>cfg_cache = \<lparr>enabled = True, maxEntries = 1000, defaultTtlMs = 300000,
                    cleanupIntervalMs = 60000\<rparr>,
      cfg_timeout = \<lparr>fixtureTimeoutMs = 35, enablePassthrough = True, logTimeouts = True\<rparr>,
      cfg_metrics = \<lparr>enableCollection = True, reportingIntervalMs = 30000\<rparr>\<rparr>"

definition tm0 :: TimeoutManager where
  "tm0 = \<lparr>tm_config = cfg_timeout config0, tm_timeoutHits = 0, tm_totalRequests = 0\<rparr>"

definition pm0 :: "nat PerformanceManager" where
  "pm0 = new_PerformanceManager config0 0"

definition opts0 :: Options where
  "opts0 = \<lparr>opt_url = ''/api/products'', opt_method = Some ''GET'',
     opt_params = Some ''category=electronics'', opt_enableCache = Some True, opt_ttlMs = None\<rparr>"

text \<open>A call that starts at time \<open>a\<close> and whose executor settles at time \<open>b\<close>.\<close>

definition readings_at :: "int \<Rightarrow> int \<Rightarrow> Readings" where
  "readings_at a b =
     \<lparr>now_start = a, now_get = a, now_hit = a, now_done = b, now_set = b, now_evict = b\<rparr>"

definition heavyTail42 :: ScenarioConfig where
  "heavyTail42 = \<lparr>sc_name = ''heavyTail'', sc_seed = 42\<rparr>"

definition heavyTail0 :: ScenarioConfig where
  "heavyTail0 = \<lparr>sc_name = ''heavyTail'', sc_seed = 0\<rparr>"

text \<open>
  A batch of three pairs: the first primary resolves, the second rejects with an error
  that is no timeout, the third is still pending when the timer fires.
\<close>

definition requests0 :: "nat option promise list" where
  "requests0 = [Fulfilled (Some 1), Rejected (Error ''boom''), Pending]"

definition fallbacks0 :: "nat option promise list option" where
  "fallbacks0 = Some [Fulfilled (Some 10), Fulfilled (Some 20), Fulfilled (Some 30)]"

text \<open>
  Four first calls on the fresh manager under scenario \<open>heavyTail\<close> with seed 42: the
  fixture is still pending when the timer fires and the passthrough resolves; the fixture
  resolves in time; the fixture resolves in time with \<open>null\<close>; the fixture rejects with an
  error that is no timeout. \<open>entryP d\<close> is the entry that the second and third leave in the
  cache.
\<close>

definition timedOutRun :: "nat PerformanceManager \<times> event list \<times> nat RequestOutcome promise" where
  "timedOutRun = executeFixtureRequest whatwg heavyTail42 (readings_at 10 90) pm0 Pending
     (Fulfilled (Some 2)) opts0"

definition fixtureRun :: "nat PerformanceManager \<times> event list \<times> nat RequestOutcome promise" where
  "fixtureRun = executeFixtureRequest whatwg heavyTail42 (readings_at 10 20) pm0 (Fulfilled (Some 11))
     (Fulfilled (Some 2)) opts0"

definition nullRun :: "nat PerformanceManager \<times> event list \<times> nat RequestOutcome promise" where
  "nullRun = executeFixtureRequest whatwg heavyTail42 (readings_at 10 20) pm0 (Fulfilled None)
     (Fulfilled (Some 2)) opts0"

definition failedRun :: "nat PerformanceManager \<times> event list \<times> nat RequestOutcome promise" where
  "failedRun = executeFixtureRequest whatwg heavyTail42 (readings_at 10 20) pm0
     (Rejected (Error ''boom'')) (Fulfilled (Some 2)) opts0"

definition entryP :: "nat option \<Rightarrow> nat CacheEntry" where
  "entryP d = \<lparr>route = ''/api/products'', params = ''category=electronics'',
     scenario = ''heavyTail'', seed = 42, data = d, timestamp = 20, ttl = 300000,
     hitCount = 0, lastAccess = 20\<rparr>"

section \<open>Properties\<close>

subsection \<open>The JavaScript Map as a list\<close>

lemma update_fresh_append:
  "k \<notin> fst ` set l \<Longrightarrow> AList.update k v l = l @ [(k, v)]"
  by (induction l) auto

lemma update_after_delete:
  "AList.update k v (AList.delete k l) = AList.delete k l @ [(k, v)]"
  by (rule update_fresh_append) (rule AList.delete_notin_dom)

subsection \<open>ResponseCache.get\<close>

lemma get_hit:
  assumes "map_of (rc_cache c) (generateKey pf k) = Some e" and "now - timestamp e \<le> ttl e"
  shows "get pf c now k =
     (c\<lparr>rc_cache := AList.delete (generateKey pf k) (rc_cache c) @
           [(generateKey pf k, e\<lparr>hitCount := hitCount e + 1, lastAccess := now\<rparr>)],
        rc_metrics := (rc_metrics c)\<lparr>cacheHits := cacheHits (rc_metrics c) + 1\<rparr>\<rparr>, data e)"
  using assms by (simp add: get_def Let_def count_hit_def update_after_delete)

lemma get_expired:
  assumes "map_of (rc_cache c) (generateKey pf k) = Some e" and "now - timestamp e > ttl e"
  shows "get pf c now k =
     (c\<lparr>rc_cache := AList.delete (generateKey pf k) (rc_cache c),
        rc_metrics := (rc_metrics c)\<lparr>cacheMisses := cacheMisses (rc_metrics c) + 1\<rparr>\<rparr>, None)"
  using assms by (simp add: get_def Let_def count_miss_def)

lemma get_absent:
  assumes "map_of (rc_cache c) (generateKey pf k) = None"
  shows "get pf c now k =
     (c\<lparr>rc_metrics := (rc_metrics c)\<lparr>cacheMisses := cacheMisses (rc_metrics c) + 1\<rparr>\<rparr>, None)"
  using assms by (simp add: get_def Let_def count_miss_def)

text \<open>
  \<open>get\<close> on a store that holds an entry \<open>e\<close> under the key, or none: a hit while the age
  does not exceed \<open>ttl e\<close>, a miss otherwise.
\<close>

lemma get_on_stored_entry:
  "(\<forall>e. map_of (rc_cache c) (generateKey pf k) = Some e \<and> now - timestamp e \<le> ttl e \<longrightarrow>
      snd (get pf c now k) = data e \<and>
      cacheHits (rc_metrics (fst (get pf c now k))) = cacheHits (rc_metrics c) + 1 \<and>
      cacheMisses (rc_metrics (fst (get pf c now k))) = cacheMisses (rc_metrics c) \<and>
      map_of (rc_cache (fst (get pf c now k))) (generateKey pf k) =
        Some (e\<lparr>hitCount := hitCount e + 1, lastAccess := now\<rparr>) \<and>
      last (rc_cache (fst (get pf c now k))) =
        (generateKey pf k, e\<lparr>hitCount := hitCount e + 1, lastAccess := now\<rparr>))
   \<and> (map_of (rc_cache c) (generateKey pf k) = None \<or>
       (\<exists>e. map_of (rc_cache c) (generateKey pf k) = Some e \<and> now - timestamp e > ttl e) \<longrightarrow>
      snd (get pf c now k) = None \<and>
      cacheMisses (rc_metrics (fst (get pf c now k))) = cacheMisses (rc_metrics c) + 1 \<and>
      cacheHits (rc_metrics (fst (get pf c now k))) = cacheHits (rc_metrics c) \<and>
      map_of (rc_cache (fst (get pf c now k))) (generateKey pf k) = None)"
proof (intro conjI allI impI)
  fix e
  assume h: "map_of (rc_cache c) (generateKey pf k) = Some e \<and> now - timestamp e \<le> ttl e"
  note g = get_hit [of c pf k e now]
  from h g show "snd (get pf c now k) = data e" by simp
  from h g show "cacheHits (rc_metrics (fst (get pf c now k))) = cacheHits (rc_metrics c) + 1"
    by simp
  from h g show "cacheMisses (rc_metrics (fst (get pf c now k))) = cacheMisses (rc_metrics c)"
    by simp
  from h g show "map_of (rc_cache (fst (get pf c now k))) (generateKey pf k) =
        Some (e\<lparr>hitCount := hitCount e + 1, lastAccess := now\<rparr>)"
    by (simp add: map_add_def AList.delete_conv')
  from h g show "last (rc_cache (fst (get pf c now k))) =
        (generateKey pf k, e\<lparr>hitCount := hitCount e + 1, lastAccess := now\<rparr>)" by simp
next
  assume h: "map_of (rc_cache c) (generateKey pf k) = None \<or>
       (\<exists>e. map_of (rc_cache c) (generateKey pf k) = Some e \<and> now - timestamp e > ttl e)"
  then have g: "get pf c now k =
      (c\<lparr>rc_metrics := (rc_metrics c)\<lparr>cacheMisses := cacheMisses (rc_metrics c) + 1\<rparr>\<rparr>, None) \<and>
        map_of (rc_cache c) (generateKey pf k) = None
     \<or> get pf c now k =
     (c\<lparr>rc_cache := AList.delete (generateKey pf k) (rc_cache c),
        rc_metrics := (rc_metrics c)\<lparr>cacheMisses := cacheMisses (rc_metrics c) + 1\<rparr>\<rparr>, None)"
    using get_absent [of c pf k now] get_expired [of c pf k _ now] by blast
  from g show "snd (get pf c now k) = None" by auto
  from g show "cacheMisses (rc_metrics (fst (get pf c now k))) = cacheMisses (rc_metrics c) + 1"
    by auto
  from g show "cacheHits (rc_metrics (fst (get pf c now k))) = cacheHits (rc_metrics c)"
    by auto
  from g show "map_of (rc_cache (fst (get pf c now k))) (generateKey pf k) = None"
    by (auto simp: AList.delete_conv')
qed

lemma generateKey_key0: "generateKey whatwg key0 = ''/api/users:limit=5:baseline:42''"
  by code_simp

lemma cache0_eq:
  "cache0 = \<lparr>rc_cache = [(''/api/users:limit=5:baseline:42'', entry0)], rc_maxEntries = 10,
     rc_defaultTtlMs = 1000, rc_metrics = zero_metrics\<rparr>"
  by code_simp

subsection \<open>TimeoutManager.fetchWithTimeout\<close>

lemma isTimeout_timeout_error: "isTimeout (timeout_error n)"
proof -
  have "''Fixture timeout after '' @ string_of_int n @ ''ms'' =
        ''Fixture '' @ ''timeout'' @ ('' after '' @ string_of_int n @ ''ms'')" by simp
  then have "sublist ''timeout'' (''Fixture timeout after '' @ string_of_int n @ ''ms'')"
    by (metis sublist_appendI)
  then show ?thesis by (simp add: isTimeout_def timeout_error_def includes_str_def)
qed

lemma fetchWithTimeout_Rejected_other:
  "\<not> isTimeout e \<Longrightarrow> fetchWithTimeout tm (Rejected e) fb =
     (tm\<lparr>tm_totalRequests := tm_totalRequests tm + 1\<rparr>, [FetchFnCalled], Rejected e)"
  by (simp add: fetchWithTimeout_def fetchWithTimeout_catch_def)

lemma fallback_called_iff:
  "FallbackFnCalled \<in> set (fst (snd (fetchWithTimeout tm fetchFn fb))) \<longleftrightarrow>
     (fetchFn = Pending \<or> (\<exists>e. fetchFn = Rejected e \<and> isTimeout e)) \<and>
     enablePassthrough (tm_config tm) \<and> fb \<noteq> None"
  by (cases fetchFn; cases fb)
     (auto simp: fetchWithTimeout_def fetchWithTimeout_catch_def Let_def isTimeout_timeout_error
           split: promise.splits)

lemma not_isTimeout_boom: "\<not> isTimeout (Error ''boom'')"
  by code_simp

text \<open>
  Claim C1, as the code has it. The test of line 57 decides by the message of the caught
  error. A primary operation that rejects with a value that is not an \<open>Error\<close> whose message
  contains \<open>timeout\<close> has its failure passed on to the caller and the fallback is not
  called. The fallback is called exactly when the caught error passes that test (the
  timer fired first, or the primary rejected with such an error), passthrough is enabled
  and a fallback was supplied.
\<close>

theorem fallback_only_after_timeout_error:
  "(\<forall>e. \<not> isTimeout e \<longrightarrow>
      snd (snd (fetchWithTimeout tm (Rejected e) fb)) = Rejected e \<and>
      FallbackFnCalled \<notin> set (fst (snd (fetchWithTimeout tm (Rejected e) fb))))
   \<and> (FallbackFnCalled \<in> set (fst (snd (fetchWithTimeout tm fetchFn fb))) \<longleftrightarrow>
        (fetchFn = Pending \<or> (\<exists>e. fetchFn = Rejected e \<and> isTimeout e)) \<and>
        enablePassthrough (tm_config tm) \<and> fb \<noteq> None)"
  using fallback_called_iff [of tm fetchFn fb]
  by (simp add: fetchWithTimeout_Rejected_other)

theorem fallback_only_after_timeout_error_witness:
  "\<not> isTimeout (Error ''boom'') \<and>
   snd (snd (fetchWithTimeout tm0 (Rejected (Error ''boom'')) (Some (Fulfilled (Some (1::nat)))))) =
     Rejected (Error ''boom'') \<and>
   FallbackFnCalled \<notin> set (fst (snd (fetchWithTimeout tm0 (Rejected (Error ''boom''))
     (Some (Fulfilled (Some (1::nat))))))) \<and>
   FallbackFnCalled \<in> set (fst (snd (fetchWithTimeout tm0 Pending (Some (Fulfilled (Some (1::nat)))))))"
proof -
  have e: "enablePassthrough (tm_config tm0)" by (simp add: tm0_def config0_def)
  from fallback_only_after_timeout_error [of tm0 "Some (Fulfilled (Some (1::nat)))" Pending]
    not_isTimeout_boom e
  show ?thesis by simp
qed

text \<open>
  The claim as stated fails: the primary rejects before the timer fires, with an error of
  its own whose message contains \<open>timeout\<close>; the fallback is called, the call counts as a
  timeout and the caller gets the fallback's result instead of the failure.
\<close>

theorem primary_timeout_message_counterexample:
  "fetchWithTimeout tm0 (Rejected (Error ''connect timeout'')) (Some (Fulfilled (Some (1::nat)))) =
     (tm0\<lparr>tm_timeoutHits := 1, tm_totalRequests := 1\<rparr>, [FetchFnCalled, FallbackFnCalled],
      Fulfilled \<lparr>result = Some 1, timedOut = True, source = SrcPassthrough\<rparr>)"
  by code_simp

subsection \<open>TimeoutManager.fetchMultipleWithTimeout\<close>

lemma fetchWithTimeout_config:
  "tm_config (fst (fetchWithTimeout tm f fb)) = tm_config tm"
  by (cases f)
     (auto simp: fetchWithTimeout_def fetchWithTimeout_catch_def Let_def split: promise.splits)

lemma fetchWithTimeout_promise_config:
  "tm_config tm = tm_config tm' \<Longrightarrow>
   snd (snd (fetchWithTimeout tm f fb)) = snd (snd (fetchWithTimeout tm' f fb))"
  by (cases f)
     (auto simp: fetchWithTimeout_def fetchWithTimeout_catch_def Let_def split: promise.splits)

text \<open>The promise of each pair is the one its own \<open>fetchWithTimeout\<close> gives, whatever the others do.\<close>

lemma fetchEach_promises:
  "tm_config tm = tm_config tm' \<Longrightarrow>
   snd (fetchEach tm requests fallbacks index) =
     map (\<lambda>i. snd (snd (fetchWithTimeout tm' (requests ! i) (fallback_at fallbacks (index + i)))))
       [0..<length requests]"
proof (induction requests arbitrary: tm index)
  case Nil
  then show ?case by simp
next
  case (Cons r rs)
  obtain tm1 evs p where f: "fetchWithTimeout tm r (fallback_at fallbacks index) = (tm1, evs, p)"
    by (cases "fetchWithTimeout tm r (fallback_at fallbacks index)") auto
  have c1: "tm_config tm1 = tm_config tm'"
    using fetchWithTimeout_config [of tm r "fallback_at fallbacks index"] f Cons.prems by simp
  have p: "p = snd (snd (fetchWithTimeout tm' r (fallback_at fallbacks index)))"
    using fetchWithTimeout_promise_config [OF Cons.prems, of r "fallback_at fallbacks index"] f
    by simp
  have ih: "snd (fetchEach tm1 rs fallbacks (Suc index)) =
     map (\<lambda>i. snd (snd (fetchWithTimeout tm' (rs ! i) (fallback_at fallbacks (Suc index + i)))))
       [0..<length rs]"
    by (rule Cons.IH [OF c1])
  have "[0..<length (r # rs)] = 0 # map Suc [0..<length rs]"
    by (simp add: upt_conv_Cons map_Suc_upt del: upt_Suc)
  then show ?case
    using f p ih by (simp add: split_beta comp_def del: upt_Suc)
qed

text \<open>
  Claim C9. When the run of every pair settles (no fallback that is called stays pending
  for ever), the batch returns a list with one outcome for each request, in the order of
  the requests: at each index the outcome of that pair's own \<open>fetchWithTimeout\<close> when it
  was fulfilled, and the marker with result \<open>null\<close>, \<open>timedOut\<close> true and source
  \<open>passthrough\<close> when it was rejected. The batch does not reject.
\<close>

theorem fetchMultipleWithTimeout_settles_all:
  assumes "\<forall>i < length requests.
     snd (snd (fetchWithTimeout tm (requests ! i) (fallback_at fallbacks i))) \<noteq> Pending"
  shows "\<exists>outs. snd (fetchMultipleWithTimeout tm requests fallbacks) = Fulfilled outs \<and>
     length outs = length requests \<and>
     (\<forall>i < length requests.
        outs ! i =
          (case snd (snd (fetchWithTimeout tm (requests ! i) (fallback_at fallbacks i))) of
             Fulfilled v \<Rightarrow> v
           | Rejected e \<Rightarrow> \<lparr>result = None, timedOut = True, source = SrcPassthrough\<rparr>
           | Pending \<Rightarrow> \<lparr>result = None, timedOut = True, source = SrcPassthrough\<rparr>))"
proof -
  let ?ps = "map (\<lambda>i. snd (snd (fetchWithTimeout tm (requests ! i) (fallback_at fallbacks i))))
       [0..<length requests]"
  have ps: "snd (fetchEach tm requests fallbacks 0) = ?ps"
    using fetchEach_promises [of tm tm requests fallbacks 0] by simp
  have np: "Pending \<notin> set ?ps" using assms by auto
  show ?thesis
    using ps np
    by (auto simp: fetchMultipleWithTimeout_def allSettled_def split_beta failure_marker_def
             simp del: upt_Suc)
qed

lemma requests0_runs:
  "snd (snd (fetchWithTimeout tm0 (requests0 ! 0) (fallback_at fallbacks0 0))) =
     Fulfilled \<lparr>result = Some 1, timedOut = False, source = SrcFixture\<rparr>"
  "snd (snd (fetchWithTimeout tm0 (requests0 ! 1) (fallback_at fallbacks0 1))) =
     Rejected (Error ''boom'')"
  "snd (snd (fetchWithTimeout tm0 (requests0 ! 2) (fallback_at fallbacks0 2))) =
     Fulfilled \<lparr>result = Some 30, timedOut = True, source = SrcPassthrough\<rparr>"
  by code_simp+

theorem fetchMultipleWithTimeout_settles_all_witness:
  "length requests0 = 3 \<and>
   snd (snd (fetchWithTimeout tm0 (requests0 ! 0) (fallback_at fallbacks0 0))) \<noteq> Pending \<and>
   snd (snd (fetchWithTimeout tm0 (requests0 ! 1) (fallback_at fallbacks0 1))) \<noteq> Pending \<and>
   snd (snd (fetchWithTimeout tm0 (requests0 ! 2) (fallback_at fallbacks0 2))) \<noteq> Pending \<and>
   (\<exists>outs. snd (fetchMultipleWithTimeout tm0 requests0 fallbacks0) = Fulfilled outs \<and>
      length outs = 3 \<and>
      outs ! 0 = \<lparr>result = Some 1, timedOut = False, source = SrcFixture\<rparr> \<and>
      outs ! 1 = \<lparr>result = None, timedOut = True, source = SrcPassthrough\<rparr> \<and>
      outs ! 2 = \<lparr>result = Some 30, timedOut = True, source = SrcPassthrough\<rparr>)"
proof -
  have len: "length requests0 = 3" by (simp add: requests0_def)
  have h: "\<forall>i < length requests0.
      snd (snd (fetchWithTimeout tm0 (requests0 ! i) (fallback_at fallbacks0 i))) \<noteq> Pending"
  proof (intro allI impI)
    fix i assume "i < length requests0"
    then have "i = 0 \<or> i = 1 \<or> i = 2" using len by auto
    then show "snd (snd (fetchWithTimeout tm0 (requests0 ! i) (fallback_at fallbacks0 i))) \<noteq> Pending"
      using requests0_runs by auto
  qed
  from fetchMultipleWithTimeout_settles_all [OF h]
  obtain outs where o: "snd (fetchMultipleWithTimeout tm0 requests0 fallbacks0) = Fulfilled outs"
    "length outs = length requests0"
    "\<forall>i < length requests0. outs ! i =
          (case snd (snd (fetchWithTimeout tm0 (requests0 ! i) (fallback_at fallbacks0 i))) of
             Fulfilled v \<Rightarrow> v
           | Rejected e \<Rightarrow> \<lparr>result = None, timedOut = True, source = SrcPassthrough\<rparr>
           | Pending \<Rightarrow> \<lparr>result = None, timedOut = True, source = SrcPassthrough\<rparr>)"
    by blast
  have "outs ! 0 = \<lparr>result = Some 1, timedOut = False, source = SrcFixture\<rparr>"
    using o(3) [rule_format, of 0] len requests0_runs(1) by simp
  moreover have "outs ! 1 = \<lparr>result = None, timedOut = True, source = SrcPassthrough\<rparr>"
    using o(3) [rule_format, of 1] len requests0_runs(2) by simp
  moreover have "outs ! 2 = \<lparr>result = Some 30, timedOut = True, source = SrcPassthrough\<rparr>"
    using o(3) [rule_format, of 2] len requests0_runs(3) by simp
  ultimately show ?thesis using requests0_runs o(1,2) len by auto
qed

subsection \<open>PerformanceManager.executeFixtureRequest\<close>

lemma fetchWithTimeout_shape:
  assumes "fetchWithTimeout tm f fb = (tm', evs, p)"
  shows "tm_config tm' = tm_config tm"
    and "FetchFnCalled \<in> set evs"
    and "CacheSet \<notin> set evs"
    and "\<And>out. p = Fulfilled out \<Longrightarrow>
          (source out = SrcFixture \<and> \<not> timedOut out \<and> tm_timeoutHits tm' = tm_timeoutHits tm) \<or>
          (source out = SrcPassthrough \<and> timedOut out \<and> tm_timeoutHits tm' = tm_timeoutHits tm + 1)"
  using assms
  by (cases f; auto simp: fetchWithTimeout_def fetchWithTimeout_catch_def Let_def
        split: promise.splits if_splits)+

lemma set_rc_metrics: "rc_metrics (set_rc pf c now ne k d ttlMs) = rc_metrics c"
  by (simp add: set_rc_def Let_def evictLRU_def split: option.splits)

lemma get_snd_cong:
  "rc_cache c = rc_cache c' \<Longrightarrow> snd (get pf c now k) = snd (get pf c' now k)"
  by (simp add: get_def Let_def split: option.splits)

lemma get_None_stable:
  "snd (get pf c now k) = None \<Longrightarrow> snd (get pf (fst (get pf c now k)) now2 k) = None"
  by (auto simp: get_def Let_def count_hit_def count_miss_def AList.update_conv' AList.delete_conv'
           split: option.splits if_splits)

lemma get_metrics:
  "cacheHits (rc_metrics (fst (get pf c now k))) =
     cacheHits (rc_metrics c) + (if snd (has pf c now k) then 1 else 0)"
  "cacheMisses (rc_metrics (fst (get pf c now k))) =
     cacheMisses (rc_metrics c) + (if snd (has pf c now k) then 0 else 1)"
  "timeoutHits (rc_metrics (fst (get pf c now k))) = timeoutHits (rc_metrics c)"
  "passthroughCount (rc_metrics (fst (get pf c now k))) = passthroughCount (rc_metrics c)"
  "averageResponseTime (rc_metrics (fst (get pf c now k))) = averageResponseTime (rc_metrics c)"
  by (auto simp: get_def has_def Let_def count_hit_def count_miss_def split: option.splits)

lemma executeWithBudget_Fulfilled:
  assumes "executeWithBudget pf t pm key fx pt options = (pm', evs, Fulfilled out)"
  shows "pm_config pm' = pm_config pm"
    and "FetchFnCalled \<in> set evs"
    and "CacheGet \<notin> set evs"
    and "fromCache out = False"
    and "source out = SrcFixture \<and> \<not> timedOut out \<or> source out = SrcPassthrough \<and> timedOut out"
    and "CacheSet \<in> set evs \<longleftrightarrow> source out = SrcFixture \<and> \<not> timedOut out \<and> cachingOn pm options"
    and "CacheSet \<in> set evs \<Longrightarrow> rc_cache (pm_cache pm') =
          rc_cache (set_rc pf (pm_cache pm) (now_set t) (now_evict t) key (result out) (opt_ttlMs options))"
    and "CacheSet \<notin> set evs \<Longrightarrow> rc_cache (pm_cache pm') = rc_cache (pm_cache pm)"
    and "cacheHits (rc_metrics (pm_cache pm')) = cacheHits (rc_metrics (pm_cache pm))"
    and "cacheMisses (rc_metrics (pm_cache pm')) = cacheMisses (rc_metrics (pm_cache pm))"
    and "passthroughCount (rc_metrics (pm_cache pm')) = passthroughCount (rc_metrics (pm_cache pm))"
    and "averageResponseTime (rc_metrics (pm_cache pm')) = averageResponseTime (rc_metrics (pm_cache pm))"
    and "tm_timeoutHits (pm_timeoutManager pm') =
           tm_timeoutHits (pm_timeoutManager pm) + (if timedOut out then 1 else 0)"
proof -
  obtain tm' evs0 p where f:
    "fetchWithTimeout (pm_timeoutManager pm) fx (Some pt) = (tm', evs0, p)"
    by (cases "fetchWithTimeout (pm_timeoutManager pm) fx (Some pt)") auto
  from assms f obtain o0 where p: "p = Fulfilled o0"
    by (cases p) (auto simp: executeWithBudget_def Let_def)
  note sh = fetchWithTimeout_shape [OF f]
  from sh(4) [OF p] have o0: "source o0 = SrcFixture \<and> \<not> timedOut o0 \<and> tm_timeoutHits tm' = tm_timeoutHits (pm_timeoutManager pm) \<or>
          source o0 = SrcPassthrough \<and> timedOut o0 \<and> tm_timeoutHits tm' = tm_timeoutHits (pm_timeoutManager pm) + 1" .
  from assms f p have out: "source out = (if source o0 = SrcFixture then SrcFixture else SrcPassthrough)"
     "timedOut out = timedOut o0" "result out = result o0" "fromCache out = False"
    by (auto simp: executeWithBudget_def Let_def)
  from assms f p show "pm_config pm' = pm_config pm"
    by (auto simp: executeWithBudget_def Let_def)
  from assms f p sh(2) show "FetchFnCalled \<in> set evs"
    by (auto simp: executeWithBudget_def Let_def)
  from assms f p sh(1,2,3) show "CacheGet \<notin> set evs"
    by (cases fx) (auto simp: executeWithBudget_def Let_def fetchWithTimeout_def fetchWithTimeout_catch_def split: promise.splits if_splits)
  from out show "fromCache out = False" by simp
  from out o0 show "source out = SrcFixture \<and> \<not> timedOut out \<or> source out = SrcPassthrough \<and> timedOut out"
    by auto
  from assms f p sh(3) out o0 show cs: "CacheSet \<in> set evs \<longleftrightarrow> source out = SrcFixture \<and> \<not> timedOut out \<and> cachingOn pm options"
    by (auto simp: executeWithBudget_def Let_def cachingOn_def)
  from assms f p sh(3) out o0 show "CacheSet \<in> set evs \<Longrightarrow> rc_cache (pm_cache pm') =
          rc_cache (set_rc pf (pm_cache pm) (now_set t) (now_evict t) key (result out) (opt_ttlMs options))"
    by (auto simp: executeWithBudget_def Let_def cachingOn_def updateMetrics_def split: if_splits)
  from assms f p sh(3) out o0 show "CacheSet \<notin> set evs \<Longrightarrow> rc_cache (pm_cache pm') = rc_cache (pm_cache pm)"
    by (auto simp: executeWithBudget_def Let_def cachingOn_def updateMetrics_def split: if_splits)
  from assms f p show "cacheHits (rc_metrics (pm_cache pm')) = cacheHits (rc_metrics (pm_cache pm))"
    by (auto simp: executeWithBudget_def Let_def updateMetrics_def set_rc_metrics)
  from assms f p show "cacheMisses (rc_metrics (pm_cache pm')) = cacheMisses (rc_metrics (pm_cache pm))"
    by (auto simp: executeWithBudget_def Let_def updateMetrics_def set_rc_metrics)
  from assms f p show "passthroughCount (rc_metrics (pm_cache pm')) = passthroughCount (rc_metrics (pm_cache pm))"
    by (auto simp: executeWithBudget_def Let_def updateMetrics_def set_rc_metrics)
  from assms f p show "averageResponseTime (rc_metrics (pm_cache pm')) = averageResponseTime (rc_metrics (pm_cache pm))"
    by (auto simp: executeWithBudget_def Let_def updateMetrics_def set_rc_metrics)
  from assms f p out o0 show "tm_timeoutHits (pm_timeoutManager pm') =
           tm_timeoutHits (pm_timeoutManager pm) + (if timedOut out then 1 else 0)"
    by (auto simp: executeWithBudget_def Let_def)
qed

lemma executeWithBudget_events:
  "FetchFnCalled \<in> set (fst (snd (executeWithBudget pf t pm key fx pt options)))"
proof -
  obtain tm' evs0 p where f:
    "fetchWithTimeout (pm_timeoutManager pm) fx (Some pt) = (tm', evs0, p)"
    by (cases "fetchWithTimeout (pm_timeoutManager pm) fx (Some pt)") auto
  from fetchWithTimeout_shape(2) [OF f] f show ?thesis
    by (cases p) (auto simp: executeWithBudget_def Let_def)
qed

lemma executeWithBudget_Rejected:
  assumes "executeWithBudget pf t pm key fx pt options = (pm', evs, Rejected err)"
  shows "pm_cache pm' = pm_cache pm" and "CacheSet \<notin> set evs"
    and "(fx = Rejected err \<and> \<not> isTimeout err) \<or>
         ((fx = Pending \<or> (\<exists>e. fx = Rejected e \<and> isTimeout e)) \<and>
            enablePassthrough (tm_config (pm_timeoutManager pm)) \<and> pt = Rejected err) \<or>
         ((fx = Pending \<and> err = timeout_error (fixtureTimeoutMs (tm_config (pm_timeoutManager pm))) \<or>
           fx = Rejected err \<and> isTimeout err) \<and>
            \<not> enablePassthrough (tm_config (pm_timeoutManager pm)))"
proof -
  obtain tm' evs0 p where f:
    "fetchWithTimeout (pm_timeoutManager pm) fx (Some pt) = (tm', evs0, p)"
    by (cases "fetchWithTimeout (pm_timeoutManager pm) fx (Some pt)") auto
  from assms f have p: "p = Rejected err" and pm': "pm' = pm\<lparr>pm_timeoutManager := tm'\<rparr>"
    and evs: "evs = FetchWithTimeout # evs0"
    by (cases p; auto simp: executeWithBudget_def Let_def)+
  from pm' show "pm_cache pm' = pm_cache pm" by simp
  from evs fetchWithTimeout_shape(3) [OF f] show "CacheSet \<notin> set evs" by simp
  from f p show "(fx = Rejected err \<and> \<not> isTimeout err) \<or>
         ((fx = Pending \<or> (\<exists>e. fx = Rejected e \<and> isTimeout e)) \<and>
            enablePassthrough (tm_config (pm_timeoutManager pm)) \<and> pt = Rejected err) \<or>
         ((fx = Pending \<and> err = timeout_error (fixtureTimeoutMs (tm_config (pm_timeoutManager pm))) \<or>
           fx = Rejected err \<and> isTimeout err) \<and>
            \<not> enablePassthrough (tm_config (pm_timeoutManager pm)))"
    by (cases fx; cases pt)
       (auto simp: fetchWithTimeout_def fetchWithTimeout_catch_def Let_def isTimeout_timeout_error
             split: if_splits)
qed


lemma cachingOn_cache [simp]: "cachingOn (pm\<lparr>pm_cache := c\<rparr>) options = cachingOn pm options"
  by (simp add: cachingOn_def)

lemma cachingOn_config: "pm_config pm' = pm_config pm \<Longrightarrow> cachingOn pm' options = cachingOn pm options"
  by (simp add: cachingOn_def)

lemma executeFixtureRequest_hit:
  assumes "cachingOn pm options"
    and "snd (get pf (pm_cache pm) (now_get t) (computeCacheKey scen options)) \<noteq> None"
  shows "executeFixtureRequest pf scen t pm fx pt options =
     (pm\<lparr>pm_cache := cacheAfterLookup pf scen t pm options\<rparr>, [CacheGet],
      Fulfilled \<lparr>result = snd (get pf (pm_cache pm) (now_get t) (computeCacheKey scen options)),
        timedOut = False, source = SrcCache, fromCache = True,
        latencyMs = now_hit t - now_start t\<rparr>)"
  using assms
  by (auto simp: executeFixtureRequest_def cacheAfterLookup_def Let_def split_beta)

lemma executeFixtureRequest_executor:
  assumes "\<not> (cachingOn pm options \<and>
     snd (get pf (pm_cache pm) (now_get t) (computeCacheKey scen options)) \<noteq> None)"
  shows "executeFixtureRequest pf scen t pm fx pt options =
     (case executeWithBudget pf t (pm\<lparr>pm_cache := cacheAfterLookup pf scen t pm options\<rparr>)
             (computeCacheKey scen options) fx pt options of
        (pm', evs, p) \<Rightarrow> (pm', (if cachingOn pm options then [CacheGet] else []) @ evs, p))"
  using assms
  by (auto simp: executeFixtureRequest_def cacheAfterLookup_def Let_def split_beta)

lemma executeFixtureRequest_executorE:
  assumes "\<not> (cachingOn pm options \<and>
     snd (get pf (pm_cache pm) (now_get t) (computeCacheKey scen options)) \<noteq> None)"
    and "executeFixtureRequest pf scen t pm fx pt options = (pm', evs, p)"
  shows "\<exists>evs0. executeWithBudget pf t (pm\<lparr>pm_cache := cacheAfterLookup pf scen t pm options\<rparr>)
             (computeCacheKey scen options) fx pt options = (pm', evs0, p) \<and>
           evs = (if cachingOn pm options then [CacheGet] else []) @ evs0"
proof -
  obtain a b c where w: "executeWithBudget pf t (pm\<lparr>pm_cache := cacheAfterLookup pf scen t pm options\<rparr>)
             (computeCacheKey scen options) fx pt options = (a, b, c)"
    by (cases "executeWithBudget pf t (pm\<lparr>pm_cache := cacheAfterLookup pf scen t pm options\<rparr>)
             (computeCacheKey scen options) fx pt options") auto
  from executeFixtureRequest_executor [OF assms(1), of fx pt] w assms(2)
  have "a = pm'" "c = p" "evs = (if cachingOn pm options then [CacheGet] else []) @ b"
    by simp_all
  with w show ?thesis by simp
qed

lemma second_request_calls_fixture:
  assumes c: "rc_cache (pm_cache pm') = rc_cache (cacheAfterLookup pf scen t pm options)"
    and cfg: "pm_config pm' = pm_config pm"
    and miss: "\<not> (cachingOn pm options \<and>
       snd (get pf (pm_cache pm) (now_get t) (computeCacheKey scen options)) \<noteq> None)"
  shows "FetchFnCalled \<in> set (fst (snd (executeFixtureRequest pf scen t2 pm' fx2 pt2 options)))"
proof -
  have "\<not> (cachingOn pm' options \<and>
     snd (get pf (pm_cache pm') (now_get t2) (computeCacheKey scen options)) \<noteq> None)"
  proof (cases "cachingOn pm options")
    case True
    with miss have n: "snd (get pf (pm_cache pm) (now_get t) (computeCacheKey scen options)) = None"
      by simp
    have "snd (get pf (pm_cache pm') (now_get t2) (computeCacheKey scen options)) =
          snd (get pf (cacheAfterLookup pf scen t pm options) (now_get t2) (computeCacheKey scen options))"
      by (rule get_snd_cong [OF c])
    also have "\<dots> = None"
      using True get_None_stable [OF n] by (simp add: cacheAfterLookup_def)
    finally show ?thesis by simp
  next
    case False
    then show ?thesis using cachingOn_config [OF cfg] by simp
  qed
  from executeFixtureRequest_executor [OF this] executeWithBudget_events
  show ?thesis by (auto simp: split_beta)
qed

text \<open>
  When \<open>executeFixtureRequest\<close> calls \<open>cache.set\<close>, and what follows a call that did not.
\<close>

lemma cache_set_called_iff_fixture_result:
  assumes "executeFixtureRequest pf scen t pm fx pt options = (pm', evs, Fulfilled out)"
  shows "(CacheSet \<in> set evs \<longleftrightarrow>
            source out = SrcFixture \<and> \<not> timedOut out \<and>
            enabled (cfg_cache (pm_config pm)) \<and> opt_enableCache options \<noteq> Some False) \<and>
         (CacheSet \<in> set evs \<longrightarrow>
            rc_cache (pm_cache pm') =
              rc_cache (set_rc pf (cacheAfterLookup pf scen t pm options) (now_set t) (now_evict t)
                          (computeCacheKey scen options) (result out) (opt_ttlMs options))) \<and>
         (source out = SrcPassthrough \<or> timedOut out \<longrightarrow>
            CacheSet \<notin> set evs \<and>
            rc_cache (pm_cache pm') = rc_cache (cacheAfterLookup pf scen t pm options) \<and>
            (\<forall>t2 fx2 pt2.
               FetchFnCalled \<in> set (fst (snd (executeFixtureRequest pf scen t2 pm' fx2 pt2 options))) \<and>
               (\<forall>out2. snd (snd (executeFixtureRequest pf scen t2 pm' fx2 pt2 options)) = Fulfilled out2
                  \<longrightarrow> \<not> fromCache out2)))"
proof (cases "cachingOn pm options \<and>
     snd (get pf (pm_cache pm) (now_get t) (computeCacheKey scen options)) \<noteq> None")
  case True
  from executeFixtureRequest_hit [of pm options pf t scen fx pt] True assms
  have "evs = [CacheGet]" "source out = SrcCache" "timedOut out = False"
    by auto
  then show ?thesis by simp
next
  case False
  let ?pm1 = "pm\<lparr>pm_cache := cacheAfterLookup pf scen t pm options\<rparr>"
  obtain evs0 where e: "executeWithBudget pf t ?pm1 (computeCacheKey scen options) fx pt options =
      (pm', evs0, Fulfilled out)" and evs: "evs = (if cachingOn pm options then [CacheGet] else []) @ evs0"
    using executeFixtureRequest_executorE [OF False assms] by blast
  note b = executeWithBudget_Fulfilled [OF e]
  have cs: "CacheSet \<in> set evs \<longleftrightarrow> CacheSet \<in> set evs0" using evs by simp
  have 1: "CacheSet \<in> set evs \<longleftrightarrow>
            source out = SrcFixture \<and> \<not> timedOut out \<and>
            enabled (cfg_cache (pm_config pm)) \<and> opt_enableCache options \<noteq> Some False"
    using cs b(6) by (simp add: cachingOn_def)
  have 2: "CacheSet \<in> set evs \<longrightarrow>
            rc_cache (pm_cache pm') =
              rc_cache (set_rc pf (cacheAfterLookup pf scen t pm options) (now_set t) (now_evict t)
                          (computeCacheKey scen options) (result out) (opt_ttlMs options))"
    using cs b(7) by simp
  have 3: "source out = SrcPassthrough \<or> timedOut out \<longrightarrow>
            CacheSet \<notin> set evs \<and>
            rc_cache (pm_cache pm') = rc_cache (cacheAfterLookup pf scen t pm options) \<and>
            (\<forall>t2 fx2 pt2.
               FetchFnCalled \<in> set (fst (snd (executeFixtureRequest pf scen t2 pm' fx2 pt2 options))) \<and>
               (\<forall>out2. snd (snd (executeFixtureRequest pf scen t2 pm' fx2 pt2 options)) = Fulfilled out2
                  \<longrightarrow> \<not> fromCache out2))"
  proof
    assume h: "source out = SrcPassthrough \<or> timedOut out"
    with 1 b(5) have n: "CacheSet \<notin> set evs" by auto
    with cs b(8) have c: "rc_cache (pm_cache pm') = rc_cache (cacheAfterLookup pf scen t pm options)"
      by simp
    have cfg: "pm_config pm' = pm_config pm" using b(1) by simp
    have "\<And>t2 fx2 pt2. FetchFnCalled \<in> set (fst (snd (executeFixtureRequest pf scen t2 pm' fx2 pt2 options))) \<and>
               (\<forall>out2. snd (snd (executeFixtureRequest pf scen t2 pm' fx2 pt2 options)) = Fulfilled out2
                  \<longrightarrow> \<not> fromCache out2)"
    proof -
      fix t2 fx2 pt2
      have f: "FetchFnCalled \<in> set (fst (snd (executeFixtureRequest pf scen t2 pm' fx2 pt2 options)))"
        by (rule second_request_calls_fixture [OF c cfg False])
      have "\<And>out2. snd (snd (executeFixtureRequest pf scen t2 pm' fx2 pt2 options)) = Fulfilled out2
                  \<Longrightarrow> \<not> fromCache out2"
      proof -
        fix out2
        assume s: "snd (snd (executeFixtureRequest pf scen t2 pm' fx2 pt2 options)) = Fulfilled out2"
        show "\<not> fromCache out2"
        proof (cases "cachingOn pm' options \<and>
            snd (get pf (pm_cache pm') (now_get t2) (computeCacheKey scen options)) \<noteq> None")
          case True
          from executeFixtureRequest_hit [of pm' options pf t2 scen fx2 pt2] True f
          show ?thesis by simp
        next
          case F2: False
          have "executeFixtureRequest pf scen t2 pm' fx2 pt2 options =
              (fst (executeFixtureRequest pf scen t2 pm' fx2 pt2 options),
               fst (snd (executeFixtureRequest pf scen t2 pm' fx2 pt2 options)), Fulfilled out2)"
            using s by (metis prod.collapse)
          from executeFixtureRequest_executorE [OF F2 this]
          obtain evs2 where "executeWithBudget pf t2 (pm'\<lparr>pm_cache := cacheAfterLookup pf scen t2 pm' options\<rparr>)
             (computeCacheKey scen options) fx2 pt2 options =
               (fst (executeFixtureRequest pf scen t2 pm' fx2 pt2 options), evs2, Fulfilled out2)"
            by blast
          from executeWithBudget_Fulfilled(4) [OF this] show ?thesis by simp
        qed
      qed
      with f show "FetchFnCalled \<in> set (fst (snd (executeFixtureRequest pf scen t2 pm' fx2 pt2 options))) \<and>
               (\<forall>out2. snd (snd (executeFixtureRequest pf scen t2 pm' fx2 pt2 options)) = Fulfilled out2
                  \<longrightarrow> \<not> fromCache out2)" by blast
    qed
    with n c show "CacheSet \<notin> set evs \<and>
            rc_cache (pm_cache pm') = rc_cache (cacheAfterLookup pf scen t pm options) \<and>
            (\<forall>t2 fx2 pt2.
               FetchFnCalled \<in> set (fst (snd (executeFixtureRequest pf scen t2 pm' fx2 pt2 options))) \<and>
               (\<forall>out2. snd (snd (executeFixtureRequest pf scen t2 pm' fx2 pt2 options)) = Fulfilled out2
                  \<longrightarrow> \<not> fromCache out2))" by blast
  qed
  from 1 2 3 show ?thesis by blast
qed

text \<open>
  Claim C4, as the code has it. \<open>get\<close> returns the stored data and line 81 takes the value
  \<open>null\<close> for a miss. When caching is enabled, the computed key has an unexpired entry and
  the stored data is not \<open>null\<close>, the call returns with source \<open>cache\<close>, \<open>fromCache\<close> true and
  \<open>timedOut\<close> false; the only call it makes is the cache lookup, so neither the timeout
  executor nor one of the two operations runs, and the timeout manager is unchanged,
  whatever the fixture operation would do.
\<close>

theorem valid_nonnull_entry_served_from_cache:
  assumes "cachingOn pm options"
    and "map_of (rc_cache (pm_cache pm)) (generateKey pf (computeCacheKey scen options)) = Some e"
    and "now_get t - timestamp e \<le> ttl e"
    and "data e \<noteq> None"
  shows "fst (snd (executeFixtureRequest pf scen t pm fx pt options)) = [CacheGet] \<and>
         snd (snd (executeFixtureRequest pf scen t pm fx pt options)) =
           Fulfilled \<lparr>result = data e, timedOut = False, source = SrcCache, fromCache = True,
                      latencyMs = now_hit t - now_start t\<rparr> \<and>
         pm_timeoutManager (fst (executeFixtureRequest pf scen t pm fx pt options)) =
           pm_timeoutManager pm"
proof -
  have g: "snd (get pf (pm_cache pm) (now_get t) (computeCacheKey scen options)) = data e"
    using get_hit [OF assms(2,3)] by simp
  from executeFixtureRequest_hit [of pm options pf t scen fx pt] assms(1,4) g
  show ?thesis by simp
qed

text \<open>
  Claim C10. When the call ends by propagating an error, the cache (store and counters)
  is exactly the cache after the initial lookup and \<open>cache.set\<close> was not called. The error
  is one of three: the fixture's own failure that is no timeout; the passthrough's failure
  after a timeout; the timeout itself when passthrough is disabled.
\<close>

theorem error_path_leaves_cache_as_after_lookup:
  assumes "executeFixtureRequest pf scen t pm fx pt options = (pm', evs, Rejected err)"
  shows "pm_cache pm' = cacheAfterLookup pf scen t pm options \<and> CacheSet \<notin> set evs \<and>
         ((fx = Rejected err \<and> \<not> isTimeout err) \<or>
          ((fx = Pending \<or> (\<exists>e. fx = Rejected e \<and> isTimeout e)) \<and>
             enablePassthrough (tm_config (pm_timeoutManager pm)) \<and> pt = Rejected err) \<or>
          ((fx = Pending \<and> err = timeout_error (fixtureTimeoutMs (tm_config (pm_timeoutManager pm))) \<or>
            fx = Rejected err \<and> isTimeout err) \<and>
             \<not> enablePassthrough (tm_config (pm_timeoutManager pm))))"
proof (cases "cachingOn pm options \<and>
     snd (get pf (pm_cache pm) (now_get t) (computeCacheKey scen options)) \<noteq> None")
  case True
  from executeFixtureRequest_hit [of pm options pf t scen fx pt] True assms
  show ?thesis by simp
next
  case False
  let ?pm1 = "pm\<lparr>pm_cache := cacheAfterLookup pf scen t pm options\<rparr>"
  obtain evs0 where e: "executeWithBudget pf t ?pm1 (computeCacheKey scen options) fx pt options =
      (pm', evs0, Rejected err)" and evs: "evs = (if cachingOn pm options then [CacheGet] else []) @ evs0"
    using executeFixtureRequest_executorE [OF False assms] by blast
  from executeWithBudget_Rejected [OF e] evs show ?thesis by simp
qed

text \<open>
  Claim C8, as the code has it. After a call that returns an outcome, \<open>getMetrics\<close> reports
  \<open>cacheHits\<close> one higher when the cache was consulted and held an unexpired entry for the
  key, \<open>cacheMisses\<close> one higher when the cache was consulted and held none, \<open>timeoutHits\<close>
  one higher when the outcome timed out, and \<open>passthroughCount\<close> and \<open>averageResponseTime\<close>
  unchanged: no statement of the code assigns these two.
\<close>

theorem metrics_after_completed_request:
  assumes "executeFixtureRequest pf scen t pm fx pt options = (pm', evs, Fulfilled out)"
  shows "cacheHits (getMetrics pm' n2) = cacheHits (getMetrics pm n1) +
           (if cachingOn pm options \<and>
               snd (has pf (pm_cache pm) (now_get t) (computeCacheKey scen options)) then 1 else 0) \<and>
         cacheMisses (getMetrics pm' n2) = cacheMisses (getMetrics pm n1) +
           (if cachingOn pm options \<and>
               \<not> snd (has pf (pm_cache pm) (now_get t) (computeCacheKey scen options)) then 1 else 0) \<and>
         timeoutHits (getMetrics pm' n2) = timeoutHits (getMetrics pm n1) +
           (if timedOut out then 1 else 0) \<and>
         passthroughCount (getMetrics pm' n2) = passthroughCount (getMetrics pm n1) \<and>
         averageResponseTime (getMetrics pm' n2) = averageResponseTime (getMetrics pm n1)"
proof -
  have gm: "\<And>p n. cacheHits (getMetrics p n) = cacheHits (rc_metrics (pm_cache p)) \<and>
      cacheMisses (getMetrics p n) = cacheMisses (rc_metrics (pm_cache p)) \<and>
      timeoutHits (getMetrics p n) = tm_timeoutHits (pm_timeoutManager p) \<and>
      passthroughCount (getMetrics p n) = passthroughCount (rc_metrics (pm_cache p)) \<and>
      averageResponseTime (getMetrics p n) = averageResponseTime (rc_metrics (pm_cache p))"
    by (simp add: getMetrics_def getStats_def getStats_tm_def Let_def)
  let ?k = "computeCacheKey scen options"
  let ?c1 = "cacheAfterLookup pf scen t pm options"
  have look: "cacheHits (rc_metrics ?c1) = cacheHits (rc_metrics (pm_cache pm)) +
           (if cachingOn pm options \<and> snd (has pf (pm_cache pm) (now_get t) ?k) then 1 else 0)"
    "cacheMisses (rc_metrics ?c1) = cacheMisses (rc_metrics (pm_cache pm)) +
           (if cachingOn pm options \<and> \<not> snd (has pf (pm_cache pm) (now_get t) ?k) then 1 else 0)"
    "passthroughCount (rc_metrics ?c1) = passthroughCount (rc_metrics (pm_cache pm))"
    "averageResponseTime (rc_metrics ?c1) = averageResponseTime (rc_metrics (pm_cache pm))"
    by (simp_all add: cacheAfterLookup_def get_metrics)
  show ?thesis
  proof (cases "cachingOn pm options \<and> snd (get pf (pm_cache pm) (now_get t) ?k) \<noteq> None")
    case True
    from executeFixtureRequest_hit [of pm options pf t scen fx pt] True assms
    have "pm' = pm\<lparr>pm_cache := ?c1\<rparr>" "timedOut out = False" by auto
    then show ?thesis using look by (simp add: gm)
  next
    case False
    let ?pm1 = "pm\<lparr>pm_cache := ?c1\<rparr>"
    obtain evs0 where e: "executeWithBudget pf t ?pm1 ?k fx pt options = (pm', evs0, Fulfilled out)"
      using executeFixtureRequest_executorE [OF False assms] by blast
    note b = executeWithBudget_Fulfilled [OF e]
    show ?thesis using b(9,10,11,12,13) look by (simp add: gm)
  qed
qed


lemma timedOutRun_result:
  "snd timedOutRun = ([CacheGet, FetchWithTimeout, FetchFnCalled, FallbackFnCalled],
     Fulfilled \<lparr>result = Some 2, timedOut = True, source = SrcPassthrough, fromCache = False,
       latencyMs = 80\<rparr>)"
  by code_simp

lemma fixtureRun_result:
  "snd fixtureRun = ([CacheGet, FetchWithTimeout, FetchFnCalled, CacheSet],
     Fulfilled \<lparr>result = Some 11, timedOut = False, source = SrcFixture, fromCache = False,
       latencyMs = 10\<rparr>)"
  by code_simp

lemma failedRun_result:
  "snd failedRun = ([CacheGet, FetchWithTimeout, FetchFnCalled], Rejected (Error ''boom''))"
  by code_simp

lemma key_heavyTail42:
  "generateKey whatwg (computeCacheKey heavyTail42 opts0) =
     ''/api/products:category=electronics:heavyTail:42''"
  by code_simp

lemma fixtureRun_store:
  "rc_cache (pm_cache (fst fixtureRun)) =
     [(''/api/products:category=electronics:heavyTail:42'', entryP (Some 11))]"
  by code_simp

lemma nullRun_store:
  "rc_cache (pm_cache (fst nullRun)) =
     [(''/api/products:category=electronics:heavyTail:42'', entryP None)]"
  by code_simp

lemma cachingOn_runs: "cachingOn pm0 opts0" "cachingOn (fst fixtureRun) opts0" "cachingOn (fst nullRun) opts0"
  by code_simp+

text \<open>
  After the fixture result 11 was cached, a call whose fixture would not finish within the
  budget is served from the cache.
\<close>

theorem valid_nonnull_entry_served_from_cache_witness:
  "cachingOn (fst fixtureRun) opts0 \<and>
   map_of (rc_cache (pm_cache (fst fixtureRun))) (generateKey whatwg (computeCacheKey heavyTail42 opts0)) =
     Some (entryP (Some 11)) \<and>
   now_get (readings_at 30 110) - timestamp (entryP (Some 11)) \<le> ttl (entryP (Some 11)) \<and>
   data (entryP (Some 11)) \<noteq> None \<and>
   snd (executeFixtureRequest whatwg heavyTail42 (readings_at 30 110) (fst fixtureRun) Pending
     (Fulfilled (Some 6)) opts0) =
     ([CacheGet], Fulfilled \<lparr>result = Some 11, timedOut = False, source = SrcCache, fromCache = True,
        latencyMs = 0\<rparr>)"
proof -
  have a: "map_of (rc_cache (pm_cache (fst fixtureRun)))
      (generateKey whatwg (computeCacheKey heavyTail42 opts0)) = Some (entryP (Some 11))"
    by (simp add: fixtureRun_store key_heavyTail42)
  have b: "now_get (readings_at 30 110) - timestamp (entryP (Some 11)) \<le> ttl (entryP (Some 11))"
    by (simp add: readings_at_def entryP_def)
  have c: "data (entryP (Some 11)) \<noteq> None" by (simp add: entryP_def)
  from valid_nonnull_entry_served_from_cache [OF cachingOn_runs(2) a b c, of Pending "Fulfilled (Some 6)"]
    a b c cachingOn_runs(2)
  show ?thesis by (simp add: prod_eq_iff readings_at_def entryP_def)
qed

text \<open>
  The claim as stated fails for a cached \<open>null\<close>: caching is enabled and the key has an
  unexpired entry (set at time 20, read at time 30), yet the timeout executor runs, the
  slow fixture times out and the call counts as a timeout served by the passthrough.
\<close>

theorem cached_null_counterexample:
  "cachingOn (fst nullRun) opts0 \<and>
   map_of (rc_cache (pm_cache (fst nullRun))) (generateKey whatwg (computeCacheKey heavyTail42 opts0)) =
     Some (entryP None) \<and>
   now_get (readings_at 30 110) - timestamp (entryP None) \<le> ttl (entryP None) \<and>
   snd (executeFixtureRequest whatwg heavyTail42 (readings_at 30 110) (fst nullRun) Pending
     (Fulfilled (Some 6)) opts0) =
     ([CacheGet, FetchWithTimeout, FetchFnCalled, FallbackFnCalled],
      Fulfilled \<lparr>result = Some 6, timedOut = True, source = SrcPassthrough, fromCache = False,
        latencyMs = 80\<rparr>)"
proof -
  have a: "map_of (rc_cache (pm_cache (fst nullRun)))
      (generateKey whatwg (computeCacheKey heavyTail42 opts0)) = Some (entryP None)"
    by (simp add: nullRun_store key_heavyTail42)
  have b: "now_get (readings_at 30 110) - timestamp (entryP None) \<le> ttl (entryP None)"
    by (simp add: readings_at_def entryP_def)
  have c: "snd (executeFixtureRequest whatwg heavyTail42 (readings_at 30 110) (fst nullRun) Pending
     (Fulfilled (Some 6)) opts0) =
     ([CacheGet, FetchWithTimeout, FetchFnCalled, FallbackFnCalled],
      Fulfilled \<lparr>result = Some 6, timedOut = True, source = SrcPassthrough, fromCache = False,
        latencyMs = 80\<rparr>)"
    by code_simp
  from a b c cachingOn_runs(3) show ?thesis by simp
qed

text \<open>
  The fixture rejects with \<open>Error('boom')\<close>: the error reaches the caller and the cache is
  the one the lookup left.
\<close>

theorem error_path_leaves_cache_as_after_lookup_witness:
  "snd (snd failedRun) = Rejected (Error ''boom'') \<and>
   pm_cache (fst failedRun) = cacheAfterLookup whatwg heavyTail42 (readings_at 10 20) pm0 opts0 \<and>
   CacheSet \<notin> set (fst (snd failedRun))"
proof -
  have a: "executeFixtureRequest whatwg heavyTail42 (readings_at 10 20) pm0
     (Rejected (Error ''boom'')) (Fulfilled (Some 2)) opts0 =
       (fst failedRun, fst (snd failedRun), Rejected (Error ''boom''))"
    unfolding failedRun_def [symmetric] using failedRun_result by (simp add: prod_eq_iff)
  from error_path_leaves_cache_as_after_lookup [OF a] failedRun_result
  show ?thesis by simp
qed

lemma pm0_metrics:
  "cacheHits (getMetrics pm0 0) = 0" "cacheMisses (getMetrics pm0 0) = 0"
  "timeoutHits (getMetrics pm0 0) = 0" "passthroughCount (getMetrics pm0 0) = 0"
  "averageResponseTime (getMetrics pm0 0) = 0"
  by (simp_all add: getMetrics_def getStats_def getStats_tm_def Let_def pm0_def
        new_PerformanceManager_def new_ResponseCache_def zero_metrics_def)

lemma pm0_has: "\<not> snd (has whatwg (pm_cache pm0) (now_get (readings_at 10 90)) (computeCacheKey heavyTail42 opts0))"
  by (simp add: has_def pm0_def new_PerformanceManager_def new_ResponseCache_def Let_def)

text \<open>
  The timed-out first call on the fresh manager: one miss, one timeout, and the two other
  metrics still 0.
\<close>

theorem metrics_after_completed_request_witness:
  "snd (snd timedOutRun) = Fulfilled \<lparr>result = Some 2, timedOut = True, source = SrcPassthrough,
      fromCache = False, latencyMs = 80\<rparr> \<and>
   cacheHits (getMetrics (fst timedOutRun) 100) = 0 \<and>
   cacheMisses (getMetrics (fst timedOutRun) 100) = 1 \<and>
   timeoutHits (getMetrics (fst timedOutRun) 100) = 1 \<and>
   passthroughCount (getMetrics (fst timedOutRun) 100) = 0 \<and>
   averageResponseTime (getMetrics (fst timedOutRun) 100) = 0"
proof -
  have a: "executeFixtureRequest whatwg heavyTail42 (readings_at 10 90) pm0 Pending
     (Fulfilled (Some 2)) opts0 = (fst timedOutRun, fst (snd timedOutRun),
       Fulfilled \<lparr>result = Some 2, timedOut = True, source = SrcPassthrough,
      fromCache = False, latencyMs = 80\<rparr>)"
    unfolding timedOutRun_def [symmetric] using timedOutRun_result by (simp add: prod_eq_iff)
  from metrics_after_completed_request [OF a, of 100 0] pm0_metrics pm0_has cachingOn_runs(1)
    timedOutRun_result
  show ?thesis by simp
qed

text \<open>
  The claim as stated fails: the call invoked the passthrough and took 80 ms, and
  \<open>getMetrics\<close> still reports \<open>passthroughCount\<close> 0 and \<open>averageResponseTime\<close> 0.
\<close>

theorem passthrough_not_counted_counterexample:
  "snd (snd timedOutRun) = Fulfilled \<lparr>result = Some 2, timedOut = True, source = SrcPassthrough,
      fromCache = False, latencyMs = 80\<rparr> \<and>
   FallbackFnCalled \<in> set (fst (snd timedOutRun)) \<and>
   passthroughCount (getMetrics pm0 0) = 0 \<and>
   passthroughCount (getMetrics (fst timedOutRun) 100) = 0 \<and>
   averageResponseTime (getMetrics (fst timedOutRun) 100) = 0"
proof -
  have "passthroughCount (getMetrics (fst timedOutRun) 100) = 0" by code_simp
  moreover have "averageResponseTime (getMetrics (fst timedOutRun) 100) = 0" by code_simp
  ultimately show ?thesis using timedOutRun_result pm0_metrics(4) by simp
qed

subsection \<open>Cache keys and eviction at concrete inputs\<close>

text \<open>
  Claim C2 at a failing input. \<open>seed || 42\<close> (line 75 of the manager, line 46 of the cache)
  turns the seed 0 into 42, so the keys of the seeds 0 and 42 are the same string: a \<open>get\<close>
  under seed 0 after a \<open>set\<close> under seed 42 is a hit, and after the scenario \<open>heavyTail\<close>
  with seed 42 cached 11, a request under \<open>heavyTail\<close> with seed 0 is served that 11 from
  the cache instead of its own fixture result.
\<close>

theorem seed_zero_shares_entry_of_seed_42:
  "generateKey whatwg (key0\<lparr>seed := 0\<rparr>) = generateKey whatwg key0 \<and>
   snd (get whatwg (set_rc whatwg (new_ResponseCache (Some 10) (Some 1000)) 100 100 key0 (Some (7::nat)) None)
          150 (key0\<lparr>seed := 0\<rparr>)) = Some 7 \<and>
   snd fixtureRun = ([CacheGet, FetchWithTimeout, FetchFnCalled, CacheSet],
     Fulfilled \<lparr>result = Some 11, timedOut = False, source = SrcFixture, fromCache = False,
       latencyMs = 10\<rparr>) \<and>
   snd (executeFixtureRequest whatwg heavyTail0 (readings_at 30 40) (fst fixtureRun)
          (Fulfilled (Some 5)) (Fulfilled (Some 6)) opts0) =
     ([CacheGet], Fulfilled \<lparr>result = Some 11, timedOut = False, source = SrcCache, fromCache = True,
        latencyMs = 0\<rparr>)"
proof -
  have "generateKey whatwg (key0\<lparr>seed := 0\<rparr>) = generateKey whatwg key0" by code_simp
  moreover have "snd (get whatwg (set_rc whatwg (new_ResponseCache (Some 10) (Some 1000)) 100 100 key0 (Some (7::nat)) None)
          150 (key0\<lparr>seed := 0\<rparr>)) = Some 7" by code_simp
  moreover have "snd (executeFixtureRequest whatwg heavyTail0 (readings_at 30 40) (fst fixtureRun)
          (Fulfilled (Some 5)) (Fulfilled (Some 6)) opts0) =
     ([CacheGet], Fulfilled \<lparr>result = Some 11, timedOut = False, source = SrcCache, fromCache = True,
        latencyMs = 0\<rparr>)" by code_simp
  ultimately show ?thesis using fixtureRun_result by simp
qed

text \<open>
  Claim C5 at two failing inputs. The cache has capacity 2 and holds the keys \<open>/a\<close> and
  \<open>/b\<close>, both last accessed at time 100. A \<open>set\<close> of the new key \<open>/c\<close> in the same
  millisecond evicts nothing, because \<open>evictLRU\<close> starts from \<open>oldestTime = Date.now()\<close> and
  looks for a strictly older entry: the store then holds 3 entries. A \<open>set\<close> of the key
  \<open>/b\<close>, which the store already holds, at time 300 evicts \<open>/a\<close> although no new key is
  inserted.
\<close>

theorem set_at_capacity_defects:
  "rc_maxEntries cacheAB = 2 \<and>
   map fst (rc_cache cacheAB) = [''/a::baseline:42'', ''/b::baseline:42''] \<and>
   map fst (rc_cache (set_rc whatwg cacheAB 100 100 keyC (Some 3) None)) =
     [''/a::baseline:42'', ''/b::baseline:42'', ''/c::baseline:42''] \<and>
   map fst (rc_cache (set_rc whatwg cacheAB 300 300 keyB (Some 3) None)) = [''/b::baseline:42'']"
  by code_simp

subsection \<open>ResponseCache.normalizeParams\<close>




subsection \<open>Set followed by get, canonical parameters, and the cache write of the manager\<close>

lemma set_rc_stores:
  "map_of (rc_cache (set_rc pf c now ne k d ttlMs)) (generateKey pf k) =
     Some \<lparr>route = route k, params = params k, scenario = scenario k, seed = seed k,
            data = d, timestamp = now, ttl = or_default ttlMs (rc_defaultTtlMs c),
            hitCount = 0, lastAccess = now\<rparr>"
  by (simp add: set_rc_def Let_def AList.update_conv')

lemma or_default_Some: "T \<noteq> 0 \<Longrightarrow> or_default (Some T) d = T"
  by (simp add: or_default_def)

text \<open>
  Claim C6, as the code has it. \<open>set\<close> stores \<open>ttlMs || defaultTtlMs\<close>, so a time-to-live of
  0 is replaced by the default. For a store that holds an entry \<open>e\<close> under the key, and for
  the store right after a \<open>set\<close> of the key at time \<open>setAt\<close> with a time-to-live \<open>T\<close> other
  than 0: a \<open>get\<close> at a time \<open>now\<close> whose age does not exceed the time-to-live returns the
  stored data, counts one hit and no miss, adds one to the entry's hit counter, sets its
  \<open>lastAccess\<close> to \<open>now\<close> and makes it the most recent entry; a \<open>get\<close> when the store holds
  no entry under the key or the age exceeds the time-to-live returns \<open>null\<close>, counts one miss
  and no hit, and leaves no entry under the key.
\<close>

theorem get_after_set_within_ttl:
  "(\<forall>e. map_of (rc_cache (c :: 'a ResponseCache)) (generateKey pf k) = Some e \<and> now - timestamp e \<le> ttl e \<longrightarrow>
      snd (get pf c now k) = data e \<and>
      cacheHits (rc_metrics (fst (get pf c now k))) = cacheHits (rc_metrics c) + 1 \<and>
      cacheMisses (rc_metrics (fst (get pf c now k))) = cacheMisses (rc_metrics c) \<and>
      map_of (rc_cache (fst (get pf c now k))) (generateKey pf k) =
        Some (e\<lparr>hitCount := hitCount e + 1, lastAccess := now\<rparr>) \<and>
      last (rc_cache (fst (get pf c now k))) =
        (generateKey pf k, e\<lparr>hitCount := hitCount e + 1, lastAccess := now\<rparr>))
   \<and> (map_of (rc_cache c) (generateKey pf k) = None \<or>
       (\<exists>e. map_of (rc_cache c) (generateKey pf k) = Some e \<and> now - timestamp e > ttl e) \<longrightarrow>
      snd (get pf c now k) = None \<and>
      cacheMisses (rc_metrics (fst (get pf c now k))) = cacheMisses (rc_metrics c) + 1 \<and>
      cacheHits (rc_metrics (fst (get pf c now k))) = cacheHits (rc_metrics c) \<and>
      map_of (rc_cache (fst (get pf c now k))) (generateKey pf k) = None)
   \<and> (T \<noteq> 0 \<and> now - setAt \<le> T \<longrightarrow>
      snd (get pf (set_rc pf (fresh :: 'a ResponseCache) setAt ne k d (Some T)) now k) = d \<and>
      cacheHits (rc_metrics (fst (get pf (set_rc pf fresh setAt ne k d (Some T)) now k))) =
        cacheHits (rc_metrics fresh) + 1 \<and>
      cacheMisses (rc_metrics (fst (get pf (set_rc pf fresh setAt ne k d (Some T)) now k))) =
        cacheMisses (rc_metrics fresh) \<and>
      map_of (rc_cache (fst (get pf (set_rc pf fresh setAt ne k d (Some T)) now k))) (generateKey pf k) =
        Some \<lparr>route = route k, params = params k, scenario = scenario k, seed = seed k,
               data = d, timestamp = setAt, ttl = T, hitCount = 1, lastAccess = now\<rparr>)
   \<and> (T \<noteq> 0 \<and> now - setAt > T \<longrightarrow>
      snd (get pf (set_rc pf fresh setAt ne k d (Some T)) now k) = None \<and>
      cacheMisses (rc_metrics (fst (get pf (set_rc pf fresh setAt ne k d (Some T)) now k))) =
        cacheMisses (rc_metrics fresh) + 1 \<and>
      cacheHits (rc_metrics (fst (get pf (set_rc pf fresh setAt ne k d (Some T)) now k))) =
        cacheHits (rc_metrics fresh) \<and>
      map_of (rc_cache (fst (get pf (set_rc pf fresh setAt ne k d (Some T)) now k))) (generateKey pf k) = None)"
proof -
  let ?c1 = "set_rc pf fresh setAt ne k d (Some T)"
  let ?e = "\<lparr>route = route k, params = params k, scenario = scenario k, seed = seed k,
               data = d, timestamp = setAt, ttl = T, hitCount = 0, lastAccess = setAt\<rparr> :: 'a CacheEntry"
  have s: "T \<noteq> 0 \<Longrightarrow> map_of (rc_cache ?c1) (generateKey pf k) = Some ?e"
    using set_rc_stores [of pf fresh setAt ne k d "Some T"] by (simp add: or_default_Some)
  have 3: "T \<noteq> 0 \<and> now - setAt \<le> T \<longrightarrow>
      snd (get pf ?c1 now k) = d \<and>
      cacheHits (rc_metrics (fst (get pf ?c1 now k))) = cacheHits (rc_metrics fresh) + 1 \<and>
      cacheMisses (rc_metrics (fst (get pf ?c1 now k))) = cacheMisses (rc_metrics fresh) \<and>
      map_of (rc_cache (fst (get pf ?c1 now k))) (generateKey pf k) =
        Some \<lparr>route = route k, params = params k, scenario = scenario k, seed = seed k,
               data = d, timestamp = setAt, ttl = T, hitCount = 1, lastAccess = now\<rparr>"
  proof
    assume h: "T \<noteq> 0 \<and> now - setAt \<le> T"
    have g: "get pf ?c1 now k =
       (?c1\<lparr>rc_cache := AList.delete (generateKey pf k) (rc_cache ?c1) @
           [(generateKey pf k, ?e\<lparr>hitCount := hitCount ?e + 1, lastAccess := now\<rparr>)],
        rc_metrics := (rc_metrics ?c1)\<lparr>cacheHits := cacheHits (rc_metrics ?c1) + 1\<rparr>\<rparr>, data ?e)"
    proof (rule get_hit)
      show "map_of (rc_cache ?c1) (generateKey pf k) = Some ?e" using h s by simp
      show "now - timestamp ?e \<le> ttl ?e" using h by simp
    qed
    show "snd (get pf ?c1 now k) = d \<and>
      cacheHits (rc_metrics (fst (get pf ?c1 now k))) = cacheHits (rc_metrics fresh) + 1 \<and>
      cacheMisses (rc_metrics (fst (get pf ?c1 now k))) = cacheMisses (rc_metrics fresh) \<and>
      map_of (rc_cache (fst (get pf ?c1 now k))) (generateKey pf k) =
        Some \<lparr>route = route k, params = params k, scenario = scenario k, seed = seed k,
               data = d, timestamp = setAt, ttl = T, hitCount = 1, lastAccess = now\<rparr>"
      by (simp add: g set_rc_metrics map_add_def AList.delete_conv')
  qed
  have 4: "T \<noteq> 0 \<and> now - setAt > T \<longrightarrow>
      snd (get pf ?c1 now k) = None \<and>
      cacheMisses (rc_metrics (fst (get pf ?c1 now k))) = cacheMisses (rc_metrics fresh) + 1 \<and>
      cacheHits (rc_metrics (fst (get pf ?c1 now k))) = cacheHits (rc_metrics fresh) \<and>
      map_of (rc_cache (fst (get pf ?c1 now k))) (generateKey pf k) = None"
  proof
    assume h: "T \<noteq> 0 \<and> now - setAt > T"
    have g: "get pf ?c1 now k =
       (?c1\<lparr>rc_cache := AList.delete (generateKey pf k) (rc_cache ?c1),
        rc_metrics := (rc_metrics ?c1)\<lparr>cacheMisses := cacheMisses (rc_metrics ?c1) + 1\<rparr>\<rparr>, None)"
    proof (rule get_expired)
      show "map_of (rc_cache ?c1) (generateKey pf k) = Some ?e" using h s by simp
      show "now - timestamp ?e > ttl ?e" using h by simp
    qed
    show "snd (get pf ?c1 now k) = None \<and>
      cacheMisses (rc_metrics (fst (get pf ?c1 now k))) = cacheMisses (rc_metrics fresh) + 1 \<and>
      cacheHits (rc_metrics (fst (get pf ?c1 now k))) = cacheHits (rc_metrics fresh) \<and>
      map_of (rc_cache (fst (get pf ?c1 now k))) (generateKey pf k) = None"
      by (simp add: g set_rc_metrics AList.delete_conv')
  qed
  from get_on_stored_entry [of c pf k now] 3 4 show ?thesis by blast
qed

text \<open>
  The claim as stated fails for \<open>T = 0\<close>: the entry is set at time 100 with a time-to-live
  of 0, and the \<open>get\<close> at time 101, of age 1, returns the data and counts a hit, because the
  stored time-to-live is the default 1000.
\<close>

theorem zero_ttl_counterexample:
  "snd (get whatwg (set_rc whatwg (new_ResponseCache (Some 10) (Some 1000)) 100 100 key0
          (Some (7::nat)) (Some 0)) 101 key0) = Some 7 \<and>
   cacheHits (rc_metrics (fst (get whatwg (set_rc whatwg (new_ResponseCache (Some 10) (Some 1000))
     100 100 key0 (Some (7::nat)) (Some 0)) 101 key0))) = 1 \<and>
   cacheMisses (rc_metrics (fst (get whatwg (set_rc whatwg (new_ResponseCache (Some 10) (Some 1000))
     100 100 key0 (Some (7::nat)) (Some 0)) 101 key0))) = 0"
  by code_simp











text \<open>
  An entry set at time 100 with a time-to-live of 500 is returned at time 600 and is a miss
  at time 601; the entry of \<open>cache0\<close> (default time-to-live 1000) is returned at 1100 and is
  a miss at 1101.
\<close>

theorem get_after_set_within_ttl_witness:
  "map_of (rc_cache cache0) (generateKey whatwg key0) = Some entry0 \<and>
   1100 - timestamp entry0 \<le> ttl entry0 \<and>
   snd (get whatwg cache0 1100 key0) = Some 7 \<and>
   cacheHits (rc_metrics (fst (get whatwg cache0 1100 key0))) = 1 \<and>
   1101 - timestamp entry0 > ttl entry0 \<and>
   snd (get whatwg cache0 1101 key0) = None \<and>
   cacheMisses (rc_metrics (fst (get whatwg cache0 1101 key0))) = 1 \<and>
   (500::int) \<noteq> 0 \<and> (600::int) - 100 \<le> 500 \<and>
   snd (get whatwg (set_rc whatwg (new_ResponseCache (Some 10) (Some 1000)) 100 100 key0
          (Some (7::nat)) (Some 500)) 600 key0) = Some 7 \<and>
   cacheHits (rc_metrics (fst (get whatwg (set_rc whatwg (new_ResponseCache (Some 10) (Some 1000))
          100 100 key0 (Some (7::nat)) (Some 500)) 600 key0))) = 1 \<and>
   (601::int) - 100 > 500 \<and>
   snd (get whatwg (set_rc whatwg (new_ResponseCache (Some 10) (Some 1000)) 100 100 key0
          (Some (7::nat)) (Some 500)) 601 key0) = None \<and>
   cacheMisses (rc_metrics (fst (get whatwg (set_rc whatwg (new_ResponseCache (Some 10) (Some 1000))
          100 100 key0 (Some (7::nat)) (Some 500)) 601 key0))) = 1 \<and>
   map_of (rc_cache (fst (get whatwg (set_rc whatwg (new_ResponseCache (Some 10) (Some 1000))
          100 100 key0 (Some (7::nat)) (Some 500)) 601 key0))) (generateKey whatwg key0) = None"
proof -
  have a: "map_of (rc_cache cache0) (generateKey whatwg key0) = Some entry0"
    by (simp add: cache0_eq generateKey_key0)
  have b: "1100 - timestamp entry0 \<le> ttl entry0" and c: "1101 - timestamp entry0 > ttl entry0"
    by (simp_all add: entry0_def)
  have m: "cacheHits (rc_metrics cache0) = 0" "cacheMisses (rc_metrics cache0) = 0"
    by (simp_all add: cache0_eq zero_metrics_def)
  have f: "cacheHits (rc_metrics (new_ResponseCache (Some 10) (Some 1000) :: nat ResponseCache)) = 0"
    "cacheMisses (rc_metrics (new_ResponseCache (Some 10) (Some 1000) :: nat ResponseCache)) = 0"
    by (simp_all add: new_ResponseCache_def zero_metrics_def)
  have d: "data entry0 = Some 7" by (simp add: entry0_def)
  note w1 = get_after_set_within_ttl [where c = cache0 and pf = whatwg and k = key0 and now = 1100
    and T = 500 and setAt = 100 and ne = 100 and d = "Some 7"
    and fresh = "new_ResponseCache (Some 10) (Some 1000)"]
  note w2 = get_after_set_within_ttl [where c = cache0 and pf = whatwg and k = key0 and now = 1101
    and T = 500 and setAt = 100 and ne = 100 and d = "Some 7"
    and fresh = "new_ResponseCache (Some 10) (Some 1000)"]
  note w3 = get_after_set_within_ttl [where c = cache0 and pf = whatwg and k = key0 and now = 600
    and T = 500 and setAt = 100 and ne = 100 and d = "Some 7"
    and fresh = "new_ResponseCache (Some 10) (Some 1000)"]
  note w4 = get_after_set_within_ttl [where c = cache0 and pf = whatwg and k = key0 and now = 601
    and T = 500 and setAt = 100 and ne = 100 and d = "Some 7"
    and fresh = "new_ResponseCache (Some 10) (Some 1000)"]
  from w1 a b have hit: "snd (get whatwg cache0 1100 key0) = Some 7 \<and>
      cacheHits (rc_metrics (fst (get whatwg cache0 1100 key0))) = 1"
    by (simp add: m d)
  from w2 a c have miss: "snd (get whatwg cache0 1101 key0) = None \<and>
      cacheMisses (rc_metrics (fst (get whatwg cache0 1101 key0))) = 1"
    by (simp add: m)
  from w3 have hit2: "snd (get whatwg (set_rc whatwg (new_ResponseCache (Some 10) (Some 1000)) 100 100 key0
          (Some (7::nat)) (Some 500)) 600 key0) = Some 7 \<and>
   cacheHits (rc_metrics (fst (get whatwg (set_rc whatwg (new_ResponseCache (Some 10) (Some 1000))
          100 100 key0 (Some (7::nat)) (Some 500)) 600 key0))) = 1"
    by (simp add: f)
  from w4 have miss2: "snd (get whatwg (set_rc whatwg (new_ResponseCache (Some 10) (Some 1000)) 100 100 key0
          (Some (7::nat)) (Some 500)) 601 key0) = None \<and>
   cacheMisses (rc_metrics (fst (get whatwg (set_rc whatwg (new_ResponseCache (Some 10) (Some 1000))
          100 100 key0 (Some (7::nat)) (Some 500)) 601 key0))) = 1 \<and>
   map_of (rc_cache (fst (get whatwg (set_rc whatwg (new_ResponseCache (Some 10) (Some 1000))
          100 100 key0 (Some (7::nat)) (Some 500)) 601 key0))) (generateKey whatwg key0) = None"
    by (simp add: f)
  from a b c hit miss hit2 miss2 show ?thesis by simp
qed




lemma get_defaultTtl: "rc_defaultTtlMs (fst (get pf c now k)) = rc_defaultTtlMs c"
  by (simp add: get_def Let_def count_hit_def count_miss_def split: option.splits)

lemma cacheAfterLookup_defaultTtl:
  "rc_defaultTtlMs (cacheAfterLookup pf scen t pm options) = rc_defaultTtlMs (pm_cache pm)"
  by (simp add: cacheAfterLookup_def get_defaultTtl)

text \<open>
  Claim C3. For a call that returns an outcome: \<open>cache.set\<close> is called exactly when the
  outcome's source is \<open>fixture\<close>, it did not time out, and caching is enabled globally and
  not disabled for the call. After that write the store holds, under the computed key, an
  entry with the outcome's result as data, created at the time of the write with the
  call's time-to-live (the default when the call gives none or 0), and a \<open>get\<close> of the key
  within that time-to-live returns the result. When the outcome came from the passthrough
  or timed out, there is no write, the store is as the initial lookup left it, and every
  following call with the same options under the same scenario, at any time and with any
  operations, calls the fixture operation again and is not served from the cache.
\<close>

theorem cache_written_only_for_fixture_result:
  assumes "executeFixtureRequest pf scen t pm fx pt options = (pm', evs, Fulfilled out)"
  shows "(CacheSet \<in> set evs \<longleftrightarrow>
            source out = SrcFixture \<and> \<not> timedOut out \<and>
            enabled (cfg_cache (pm_config pm)) \<and> opt_enableCache options \<noteq> Some False) \<and>
         (CacheSet \<in> set evs \<longrightarrow>
            rc_cache (pm_cache pm') =
              rc_cache (set_rc pf (cacheAfterLookup pf scen t pm options) (now_set t) (now_evict t)
                          (computeCacheKey scen options) (result out) (opt_ttlMs options)) \<and>
            map_of (rc_cache (pm_cache pm')) (generateKey pf (computeCacheKey scen options)) =
              Some \<lparr>route = route (computeCacheKey scen options),
                     params = params (computeCacheKey scen options),
                     scenario = scenario (computeCacheKey scen options),
                     seed = seed (computeCacheKey scen options),
                     data = result out, timestamp = now_set t,
                     ttl = or_default (opt_ttlMs options) (rc_defaultTtlMs (pm_cache pm)),
                     hitCount = 0, lastAccess = now_set t\<rparr> \<and>
            (\<forall>now2. now2 - now_set t \<le> or_default (opt_ttlMs options) (rc_defaultTtlMs (pm_cache pm))
               \<longrightarrow> snd (get pf (pm_cache pm') now2 (computeCacheKey scen options)) = result out)) \<and>
         (source out = SrcPassthrough \<or> timedOut out \<longrightarrow>
            CacheSet \<notin> set evs \<and>
            rc_cache (pm_cache pm') = rc_cache (cacheAfterLookup pf scen t pm options) \<and>
            (\<forall>t2 fx2 pt2.
               FetchFnCalled \<in> set (fst (snd (executeFixtureRequest pf scen t2 pm' fx2 pt2 options))) \<and>
               (\<forall>out2. snd (snd (executeFixtureRequest pf scen t2 pm' fx2 pt2 options)) = Fulfilled out2
                  \<longrightarrow> \<not> fromCache out2)))"
proof -
  note old = cache_set_called_iff_fixture_result [OF assms]
  let ?k = "computeCacheKey scen options"
  let ?e = "\<lparr>route = route ?k, params = params ?k, scenario = scenario ?k, seed = seed ?k,
                     data = result out, timestamp = now_set t,
                     ttl = or_default (opt_ttlMs options) (rc_defaultTtlMs (pm_cache pm)),
                     hitCount = 0, lastAccess = now_set t\<rparr>"
  have new: "CacheSet \<in> set evs \<longrightarrow>
      map_of (rc_cache (pm_cache pm')) (generateKey pf ?k) = Some ?e \<and>
      (\<forall>now2. now2 - now_set t \<le> or_default (opt_ttlMs options) (rc_defaultTtlMs (pm_cache pm))
               \<longrightarrow> snd (get pf (pm_cache pm') now2 ?k) = result out)"
  proof
    assume "CacheSet \<in> set evs"
    with old have c: "rc_cache (pm_cache pm') =
              rc_cache (set_rc pf (cacheAfterLookup pf scen t pm options) (now_set t) (now_evict t)
                          ?k (result out) (opt_ttlMs options))" by blast
    have m: "map_of (rc_cache (pm_cache pm')) (generateKey pf ?k) = Some ?e"
      using set_rc_stores [of pf "cacheAfterLookup pf scen t pm options" "now_set t" "now_evict t"
          ?k "result out" "opt_ttlMs options"]
      by (simp add: c cacheAfterLookup_defaultTtl)
    have "\<And>now2. now2 - now_set t \<le> or_default (opt_ttlMs options) (rc_defaultTtlMs (pm_cache pm))
               \<Longrightarrow> snd (get pf (pm_cache pm') now2 ?k) = result out"
    proof -
      fix now2
      assume a: "now2 - now_set t \<le> or_default (opt_ttlMs options) (rc_defaultTtlMs (pm_cache pm))"
      have "get pf (pm_cache pm') now2 ?k =
        ((pm_cache pm')\<lparr>rc_cache := AList.delete (generateKey pf ?k) (rc_cache (pm_cache pm')) @
           [(generateKey pf ?k, ?e\<lparr>hitCount := hitCount ?e + 1, lastAccess := now2\<rparr>)],
        rc_metrics := (rc_metrics (pm_cache pm'))\<lparr>cacheHits := cacheHits (rc_metrics (pm_cache pm')) + 1\<rparr>\<rparr>,
         data ?e)"
      proof (rule get_hit)
        show "map_of (rc_cache (pm_cache pm')) (generateKey pf ?k) = Some ?e" by (rule m)
        show "now2 - timestamp ?e \<le> ttl ?e" using a by simp
      qed
      then show "snd (get pf (pm_cache pm') now2 ?k) = result out" by simp
    qed
    with m show "map_of (rc_cache (pm_cache pm')) (generateKey pf ?k) = Some ?e \<and>
      (\<forall>now2. now2 - now_set t \<le> or_default (opt_ttlMs options) (rc_defaultTtlMs (pm_cache pm))
               \<longrightarrow> snd (get pf (pm_cache pm') now2 ?k) = result out)" by blast
  qed
  from old new show ?thesis by blast
qed

text \<open>
  The timed-out first call writes nothing and a second call runs the fixture again; the
  first call whose fixture resolves in time leaves its result 11 in the store under the
  key, where a \<open>get\<close> at the last millisecond of its time-to-live finds it.
\<close>

theorem cache_written_only_for_fixture_result_witness:
  "snd (snd timedOutRun) = Fulfilled \<lparr>result = Some 2, timedOut = True, source = SrcPassthrough,
      fromCache = False, latencyMs = 80\<rparr> \<and>
   CacheSet \<notin> set (fst (snd timedOutRun)) \<and>
   rc_cache (pm_cache (fst timedOutRun)) =
     rc_cache (cacheAfterLookup whatwg heavyTail42 (readings_at 10 90) pm0 opts0) \<and>
   FetchFnCalled \<in> set (fst (snd (executeFixtureRequest whatwg heavyTail42 (readings_at 200 210)
     (fst timedOutRun) (Fulfilled (Some 9)) (Fulfilled (Some 2)) opts0))) \<and>
   snd (snd fixtureRun) = Fulfilled \<lparr>result = Some 11, timedOut = False, source = SrcFixture,
      fromCache = False, latencyMs = 10\<rparr> \<and>
   CacheSet \<in> set (fst (snd fixtureRun)) \<and>
   map_of (rc_cache (pm_cache (fst fixtureRun))) (generateKey whatwg (computeCacheKey heavyTail42 opts0)) =
     Some (entryP (Some 11)) \<and>
   snd (get whatwg (pm_cache (fst fixtureRun)) 300020 (computeCacheKey heavyTail42 opts0)) = Some 11"
proof -
  have a: "executeFixtureRequest whatwg heavyTail42 (readings_at 10 90) pm0 Pending
     (Fulfilled (Some 2)) opts0 = (fst timedOutRun, fst (snd timedOutRun),
       Fulfilled \<lparr>result = Some 2, timedOut = True, source = SrcPassthrough,
      fromCache = False, latencyMs = 80\<rparr>)"
    unfolding timedOutRun_def [symmetric] using timedOutRun_result by (simp add: prod_eq_iff)
  have b: "executeFixtureRequest whatwg heavyTail42 (readings_at 10 20) pm0 (Fulfilled (Some 11))
     (Fulfilled (Some 2)) opts0 = (fst fixtureRun, fst (snd fixtureRun),
       Fulfilled \<lparr>result = Some 11, timedOut = False, source = SrcFixture,
      fromCache = False, latencyMs = 10\<rparr>)"
    unfolding fixtureRun_def [symmetric] using fixtureRun_result by (simp add: prod_eq_iff)
  have c: "enabled (cfg_cache (pm_config pm0))" "opt_enableCache opts0 \<noteq> Some False"
    by (simp_all add: pm0_def new_PerformanceManager_def config0_def opts0_def)
  have k: "computeCacheKey heavyTail42 opts0 = \<lparr>route = ''/api/products'',
     params = ''category=electronics'', scenario = ''heavyTail'', seed = 42\<rparr>"
    by (simp add: computeCacheKey_def heavyTail42_def opts0_def)
  have t: "or_default (opt_ttlMs opts0) (rc_defaultTtlMs (pm_cache pm0)) = 300000"
    "now_set (readings_at 10 20) = 20"
    by (simp_all add: or_default_def opts0_def pm0_def new_PerformanceManager_def
          new_ResponseCache_def config0_def readings_at_def)
  note w = cache_written_only_for_fixture_result [OF b]
  from w c fixtureRun_result have s: "CacheSet \<in> set (fst (snd fixtureRun))" by simp
  from w s have w2: "map_of (rc_cache (pm_cache (fst fixtureRun)))
        (generateKey whatwg (computeCacheKey heavyTail42 opts0)) =
      Some \<lparr>route = route (computeCacheKey heavyTail42 opts0),
             params = params (computeCacheKey heavyTail42 opts0),
             scenario = scenario (computeCacheKey heavyTail42 opts0),
             seed = seed (computeCacheKey heavyTail42 opts0),
             data = result \<lparr>result = Some 11, timedOut = False, source = SrcFixture,
                              fromCache = False, latencyMs = 10\<rparr>,
             timestamp = now_set (readings_at 10 20),
             ttl = or_default (opt_ttlMs opts0) (rc_defaultTtlMs (pm_cache pm0)),
             hitCount = 0, lastAccess = now_set (readings_at 10 20)\<rparr>"
    and w3: "\<forall>now2. now2 - now_set (readings_at 10 20) \<le>
                 or_default (opt_ttlMs opts0) (rc_defaultTtlMs (pm_cache pm0)) \<longrightarrow>
        snd (get whatwg (pm_cache (fst fixtureRun)) now2 (computeCacheKey heavyTail42 opts0)) =
          result \<lparr>result = Some 11, timedOut = False, source = SrcFixture,
                              fromCache = False, latencyMs = 10\<rparr>"
    by blast+
  have m: "map_of (rc_cache (pm_cache (fst fixtureRun)))
      (generateKey whatwg (computeCacheKey heavyTail42 opts0)) = Some (entryP (Some 11))"
    using w2 by (simp add: k t entryP_def)
  have g: "snd (get whatwg (pm_cache (fst fixtureRun)) 300020
      (computeCacheKey heavyTail42 opts0)) = Some 11"
    using w3 [rule_format, of 300020] by (simp add: t)
  from cache_written_only_for_fixture_result [OF a] timedOutRun_result
  have p: "CacheSet \<notin> set (fst (snd timedOutRun)) \<and>
   rc_cache (pm_cache (fst timedOutRun)) =
     rc_cache (cacheAfterLookup whatwg heavyTail42 (readings_at 10 90) pm0 opts0) \<and>
   FetchFnCalled \<in> set (fst (snd (executeFixtureRequest whatwg heavyTail42 (readings_at 200 210)
     (fst timedOutRun) (Fulfilled (Some 9)) (Fulfilled (Some 2)) opts0)))"
    by simp
  from p m g s timedOutRun_result fixtureRun_result show ?thesis by simp
qed

end
